theory Spec2Isabelle
  imports Main "HOL-Library.Sublist"
begin

section \<open>The schema graph read by the classifiers\<close>

text \<open>
  The classifiers of \<^verbatim>\<open>createDBSchemaSpec.js\<close> read \<^verbatim>\<open>dmmf.datamodel.models\<close>: a
  sequence of models, each with a name and a sequence of fields. Of a field they read
  \<^verbatim>\<open>name\<close>, \<^verbatim>\<open>kind\<close>, \<^verbatim>\<open>type\<close>, \<^verbatim>\<open>isList\<close> and \<^verbatim>\<open>relationName\<close>; the kind is
  compared with the strings \<^verbatim>\<open>'object'\<close> and \<^verbatim>\<open>'scalar'\<close>, so it stays a string here.
  A relation name that is absent is \<open>None\<close> (strict equality of two absent names holds).
\<close>

record field =
  f_name :: string
  f_kind :: string
  f_type :: string
  f_isList :: bool
  f_relationName :: "string option"

record model =
  m_name :: string
  m_fields :: "field list"

record dmmf =
  models :: "model list"

subsection \<open>Strings\<close>

text \<open>
  \<^verbatim>\<open>toLowerCase\<close> on the letters A to Z; every other character is left as it is. Identifiers of a Prisma schema are made of ASCII letters,
  digits and underscores.
\<close>

definition toLowerChar :: "char \<Rightarrow> char" where
  "toLowerChar c =
     (case map_of (zip ''ABCDEFGHIJKLMNOPQRSTUVWXYZ'' ''abcdefghijklmnopqrstuvwxyz'') c of
        Some l \<Rightarrow> l
      | None \<Rightarrow> c)"

definition toLowerCase :: "string \<Rightarrow> string" where
  "toLowerCase s = map toLowerChar s"

text \<open>\<^verbatim>\<open>s.startsWith(t)\<close> and \<^verbatim>\<open>s.includes(t)\<close>: \<open>t\<close> occurs in \<open>s\<close> as a contiguous run.\<close>

fun startsWith :: "string \<Rightarrow> string \<Rightarrow> bool" where
  "startsWith s [] = True"
| "startsWith [] (c # t) = False"
| "startsWith (d # s) (c # t) = (d = c \<and> startsWith s t)"

fun includesStr :: "string \<Rightarrow> string \<Rightarrow> bool" where
  "includesStr [] t = (t = [])"
| "includesStr (d # s) t = (startsWith (d # s) t \<or> includesStr s t)"

section \<open>Many-to-many relations\<close>

text \<open>
  An entry of the result is
  \<^verbatim>\<open>{relationTable: [{name, field}, {name, field}], junctionTable: {name, [A + 'Field'], [B + 'Field']}}\<close>.
  The relation table always has two entries and is a pair here. The junction table is an
  object literal with the fixed key \<^verbatim>\<open>name\<close> and two computed keys; a computed key ends in
  \<^verbatim>\<open>Field\<close>, so it never is \<^verbatim>\<open>name\<close>, and the computed keys are kept apart in \<open>jt_keys\<close>,
  in insertion order.
\<close>

record table_ref =
  t_name :: string
  t_field :: string

record junction_table =
  jt_name :: string
  jt_keys :: "(string \<times> string) list"

record many_to_many =
  relationTable :: "table_ref \<times> table_ref"
  junctionTable :: junction_table

datatype js_error = TypeError

text \<open>
  Defining a property of an object: a key that is already there keeps its place and takes
  the new value, a new key goes to the end.
\<close>

fun setKey :: "(string \<times> string) list \<Rightarrow> string \<Rightarrow> string \<Rightarrow> (string \<times> string) list" where
  "setKey [] k v = [(k, v)]"
| "setKey ((k', v') # kvs) k v = (if k' = k then (k, v) # kvs else (k', v') # setKey kvs k v)"

definition objectFields :: "model \<Rightarrow> field list" where
  "objectFields m = filter (\<lambda>field. f_kind field = ''object'') (m_fields m)"

definition scalarFields :: "model \<Rightarrow> field list" where
  "scalarFields m = filter (\<lambda>field. f_kind field = ''scalar'') (m_fields m)"

definition findModel :: "model list \<Rightarrow> string \<Rightarrow> model option" where
  "findModel ms n = find (\<lambda>m. m_name m = n) ms"

definition reciprocalListField :: "model \<Rightarrow> string \<Rightarrow> field option" where
  "reciprocalListField relatedModel junctionName =
     find (\<lambda>f. f_kind f = ''object'' \<and> f_type f = junctionName \<and> f_isList f)
       (m_fields relatedModel)"

text \<open>\<^verbatim>\<open>scalarFields[i].name\<close>: reading \<^verbatim>\<open>name\<close> of \<^verbatim>\<open>undefined\<close> throws a TypeError.\<close>

definition scalarNameAt :: "field list \<Rightarrow> nat \<Rightarrow> js_error + string" where
  "scalarNameAt sc i = (if i < length sc then Inr (f_name (sc ! i)) else Inl TypeError)"

definition nameMatches :: "string \<Rightarrow> field \<Rightarrow> bool" where
  "nameMatches relatedName f = includesStr (toLowerCase (f_name f)) (toLowerCase relatedName)"

text \<open>
  \<^verbatim>\<open>scalarFields.find(f => f.name.toLowerCase().includes(related.toLowerCase()))?.name || scalarFields[i].name\<close>:
  the name of the first match when it is a non-empty string (the empty string is falsy),
  the name at position \<open>i\<close> otherwise.
\<close>

definition scalarFieldFor :: "field list \<Rightarrow> string \<Rightarrow> nat \<Rightarrow> js_error + string" where
  "scalarFieldFor sc relatedName i =
     (case find (nameMatches relatedName) sc of
        Some f \<Rightarrow> if f_name f \<noteq> [] then Inr (f_name f) else scalarNameAt sc i
      | None \<Rightarrow> scalarNameAt sc i)"

text \<open>
  The body of the \<^verbatim>\<open>forEach\<close> over the junction models: \<open>None\<close> when the callback returns
  early, \<open>Some (Inl e)\<close> when it throws, \<open>Some (Inr r)\<close> when it pushes \<open>r\<close>.
\<close>

definition junctionEntry :: "model list \<Rightarrow> model \<Rightarrow> (js_error + many_to_many) option" where
  "junctionEntry ms junctionModel =
     (case objectFields junctionModel of
        [field1, field2] \<Rightarrow>
          (case findModel ms (f_type field1) of
             None \<Rightarrow> None
           | Some relatedModel1 \<Rightarrow>
          (case findModel ms (f_type field2) of
             None \<Rightarrow> None
           | Some relatedModel2 \<Rightarrow>
          (case reciprocalListField relatedModel1 (m_name junctionModel) of
             None \<Rightarrow> None
           | Some reciprocalField1 \<Rightarrow>
          (case reciprocalListField relatedModel2 (m_name junctionModel) of
             None \<Rightarrow> None
           | Some reciprocalField2 \<Rightarrow>
          Some
            (case scalarFieldFor (scalarFields junctionModel) (m_name relatedModel1) 0 of
               Inl e \<Rightarrow> Inl e
             | Inr a \<Rightarrow>
            (case scalarFieldFor (scalarFields junctionModel) (m_name relatedModel2) 1 of
               Inl e \<Rightarrow> Inl e
             | Inr b \<Rightarrow>
               Inr \<lparr>relationTable =
                      (\<lparr>t_name = m_name relatedModel1, t_field = f_name reciprocalField1\<rparr>,
                       \<lparr>t_name = m_name relatedModel2, t_field = f_name reciprocalField2\<rparr>),
                    junctionTable =
                      \<lparr>jt_name = m_name junctionModel,
                       jt_keys =
                         setKey (setKey [] (m_name relatedModel1 @ ''Field'') a)
                           (m_name relatedModel2 @ ''Field'') b\<rparr>\<rparr>))))))
      | _ \<Rightarrow> None)"

definition junctionModels :: "model list \<Rightarrow> model list" where
  "junctionModels ms = filter (\<lambda>m. length (objectFields m) = 2) ms"

fun forEachJunction ::
  "model list \<Rightarrow> model list \<Rightarrow> many_to_many list \<Rightarrow> js_error + many_to_many list" where
  "forEachJunction ms [] manyToManyRelations = Inr manyToManyRelations"
| "forEachJunction ms (j # js) manyToManyRelations =
     (case junctionEntry ms j of
        None \<Rightarrow> forEachJunction ms js manyToManyRelations
      | Some (Inl e) \<Rightarrow> Inl e
      | Some (Inr r) \<Rightarrow> forEachJunction ms js (manyToManyRelations @ [r]))"

definition getManyToManyRelations :: "dmmf \<Rightarrow> js_error + many_to_many list" where
  "getManyToManyRelations d = forEachJunction (models d) (junctionModels (models d)) []"

section \<open>One-to-many relations\<close>

record one_to_many =
  otm_many :: table_ref
  otm_one :: table_ref

record one_to_many_result =
  manyToOne :: "one_to_many list"

definition reciprocalSingleField :: "model \<Rightarrow> string \<Rightarrow> string option \<Rightarrow> field option" where
  "reciprocalSingleField relatedModel originName relationName =
     find (\<lambda>f. f_kind f = ''object'' \<and> \<not> f_isList f \<and> f_type f = originName \<and>
               f_relationName f = relationName)
       (m_fields relatedModel)"

text \<open>The body of the inner loop of \<^verbatim>\<open>getOneToManyRelations\<close>, for one field of one model.\<close>

definition oneToManyField ::
  "model list \<Rightarrow> model \<Rightarrow> field \<Rightarrow> one_to_many list \<Rightarrow> one_to_many list" where
  "oneToManyField ms model field oneToMany =
     (if f_kind field = ''object'' \<and> f_isList field \<and>
         list_ex (\<lambda>m. m_name m = f_type field) ms
      then
        (case find (\<lambda>m. m_name m = f_type field) ms of
           None \<Rightarrow> oneToMany
         | Some relatedModel \<Rightarrow>
            (case reciprocalSingleField relatedModel (m_name model) (f_relationName field) of
               None \<Rightarrow> oneToMany
             | Some reciprocalField \<Rightarrow>
                 if list_ex
                      (\<lambda>rel. t_name (otm_one rel) = m_name model \<and>
                             t_field (otm_one rel) = f_name field \<and>
                             t_name (otm_many rel) = m_name relatedModel \<and>
                             t_field (otm_many rel) = f_name reciprocalField)
                      oneToMany
                 then oneToMany
                 else oneToMany @
                   [\<lparr>otm_many = \<lparr>t_name = m_name relatedModel, t_field = f_name reciprocalField\<rparr>,
                     otm_one = \<lparr>t_name = m_name model, t_field = f_name field\<rparr>\<rparr>]))
      else oneToMany)"

definition getOneToManyRelations :: "dmmf \<Rightarrow> one_to_many_result" where
  "getOneToManyRelations d =
     \<lparr>manyToOne =
        fold (\<lambda>model. fold (oneToManyField (models d) model) (m_fields model)) (models d) []\<rparr>"

section \<open>One-to-one relations\<close>

record one_to_one =
  table_one :: table_ref
  table_two :: table_ref

definition swapSides :: "one_to_one \<Rightarrow> one_to_one" where
  "swapSides r = \<lparr>table_one = table_two r, table_two = table_one r\<rparr>"

text \<open>The body of the inner \<^verbatim>\<open>forEach\<close> of \<^verbatim>\<open>getOneToOneRelations\<close>.\<close>

definition oneToOneField ::
  "model list \<Rightarrow> model \<Rightarrow> field \<Rightarrow> one_to_one list \<Rightarrow> one_to_one list" where
  "oneToOneField ms model field oneToOne =
     (if f_kind field = ''object'' \<and> \<not> f_isList field
      then
        (let tableOneName = m_name model;
             tableTwoName = f_type field;
             relationName = f_relationName field
         in case find (\<lambda>m. m_name m = tableTwoName) ms of
              None \<Rightarrow> oneToOne
            | Some relatedModel \<Rightarrow>
               (case reciprocalSingleField relatedModel tableOneName relationName of
                  None \<Rightarrow> oneToOne
                | Some relatedField \<Rightarrow>
                    if list_ex
                         (\<lambda>rel.
                            (t_name (table_one rel) = tableOneName \<and>
                             t_field (table_one rel) = f_name field \<and>
                             t_name (table_two rel) = tableTwoName \<and>
                             t_field (table_two rel) = f_name relatedField) \<or>
                            (t_name (table_one rel) = tableTwoName \<and>
                             t_field (table_one rel) = f_name relatedField \<and>
                             t_name (table_two rel) = tableOneName \<and>
                             t_field (table_two rel) = f_name field))
                         oneToOne
                    then oneToOne
                    else oneToOne @
                      [\<lparr>table_one = \<lparr>t_name = tableOneName, t_field = f_name field\<rparr>,
                        table_two = \<lparr>t_name = tableTwoName, t_field = f_name relatedField\<rparr>\<rparr>]))
      else oneToOne)"

definition getOneToOneRelations :: "dmmf \<Rightarrow> one_to_one list" where
  "getOneToOneRelations d =
     fold (\<lambda>model. fold (oneToOneField (models d) model) (m_fields model)) (models d) []"

section \<open>Notions used to state the properties\<close>

text \<open>
  A one-to-one list has no mirrored pair when no record occurs twice and the only record
  whose mirror image is in the list too is a record that is its own mirror image.
\<close>

definition noMirror :: "one_to_one list \<Rightarrow> bool" where
  "noMirror rs = (distinct rs \<and> (\<forall>r\<in>set rs. swapSides r \<in> set rs \<longrightarrow> swapSides r = r))"

text \<open>The records pushed for a list of junction models, in order, when none of them throws.\<close>

fun junctionRecords :: "model list \<Rightarrow> model list \<Rightarrow> many_to_many list" where
  "junctionRecords ms [] = []"
| "junctionRecords ms (j # js) =
     (case junctionEntry ms j of
        Some (Inr r) \<Rightarrow> r # junctionRecords ms js
      | _ \<Rightarrow> junctionRecords ms js)"

text \<open>
  \<open>a\<close> is the name of the first field of \<open>sc\<close>, in order, whose name contains
  \<open>relatedName\<close> (both in lower case), or no field of \<open>sc\<close> has such a name and \<open>a\<close> is
  the name of the field at position \<open>i\<close>.
\<close>

definition firstMatchOr :: "field list \<Rightarrow> string \<Rightarrow> nat \<Rightarrow> string \<Rightarrow> bool" where
  "firstMatchOr sc relatedName i a \<longleftrightarrow>
     (\<exists>k<length sc. nameMatches relatedName (sc ! k) \<and>
        (\<forall>i<k. \<not> nameMatches relatedName (sc ! i)) \<and> a = f_name (sc ! k)) \<or>
     ((\<forall>f\<in>set sc. \<not> nameMatches relatedName f) \<and> a = f_name (sc ! i))"

text \<open>
  The type of field \<open>f\<close> of model \<open>m\<close> names no model, or the model it names has no
  reciprocal field: a list-typed object field typed \<open>m\<close> (the shape the many-to-many
  classifier looks for), respectively a singular object field typed \<open>m\<close> with the relation
  name of \<open>f\<close> (the shape the other two classifiers look for).
\<close>

definition noListReciprocal :: "model list \<Rightarrow> model \<Rightarrow> field \<Rightarrow> bool" where
  "noListReciprocal ms m f \<longleftrightarrow>
     (case findModel ms (f_type f) of
        None \<Rightarrow> True
      | Some rm \<Rightarrow> reciprocalListField rm (m_name m) = None)"

definition noSingleReciprocal :: "model list \<Rightarrow> model \<Rightarrow> field \<Rightarrow> bool" where
  "noSingleReciprocal ms m f \<longleftrightarrow>
     (case findModel ms (f_type f) of
        None \<Rightarrow> True
      | Some rm \<Rightarrow> reciprocalSingleField rm (m_name m) (f_relationName f) = None)"

text \<open>
  The opposite relation fields of field \<open>f\<close> of model \<open>m\<close>: the object fields of the
  model that \<open>f\<close> references which are typed \<open>m\<close> and carry the relation name of \<open>f\<close>
  (in a self-relation, other than \<open>f\<close> itself). In a valid Prisma schema every relation
  field has exactly one opposite relation field; \<open>relationsPaired\<close> says so of a graph.
\<close>

definition oppositeFields :: "model list \<Rightarrow> model \<Rightarrow> field \<Rightarrow> field list" where
  "oppositeFields ms m f =
     (case findModel ms (f_type f) of
        None \<Rightarrow> []
      | Some rm \<Rightarrow>
          filter (\<lambda>g. f_kind g = ''object'' \<and> f_type g = m_name m \<and>
                       f_relationName g = f_relationName f \<and>
                       (m_name rm = m_name m \<longrightarrow> g \<noteq> f))
            (m_fields rm))"

definition relationsPaired :: "model list \<Rightarrow> bool" where
  "relationsPaired ms \<longleftrightarrow>
     list_all (\<lambda>m. list_all (\<lambda>f. length (oppositeFields ms m f) = 1) (objectFields m)) ms"

section \<open>Example graphs\<close>

definition scalarField :: "string \<Rightarrow> string \<Rightarrow> field" where
  "scalarField n ty =
     \<lparr>f_name = n, f_kind = ''scalar'', f_type = ty, f_isList = False, f_relationName = None\<rparr>"

definition objectField :: "string \<Rightarrow> string \<Rightarrow> bool \<Rightarrow> string option \<Rightarrow> field" where
  "objectField n ty isList rel =
     \<lparr>f_name = n, f_kind = ''object'', f_type = ty, f_isList = isList, f_relationName = rel\<rparr>"

text \<open>
  Scenario A: \<^verbatim>\<open>Department{id, employees: Employee[]}\<close> and
  \<^verbatim>\<open>Employee{id, department: Department?}\<close>, both fields with the relation name \<open>rn\<close>.
\<close>

definition departmentA :: "string option \<Rightarrow> model" where
  "departmentA rn = \<lparr>m_name = ''Department'', m_fields =
     [scalarField ''id'' ''Int'', objectField ''employees'' ''Employee'' True rn]\<rparr>"

definition employeeA :: "string option \<Rightarrow> model" where
  "employeeA rn = \<lparr>m_name = ''Employee'', m_fields =
     [scalarField ''id'' ''Int'', objectField ''department'' ''Department'' False rn]\<rparr>"

definition scenarioA :: "string option \<Rightarrow> dmmf" where
  "scenarioA rn = \<lparr>models = [departmentA rn, employeeA rn]\<rparr>"

text \<open>The schema of the repository's README, with the relation names Prisma gives it.\<close>

definition Employee :: model where
  "Employee = \<lparr>m_name = ''Employee'', m_fields =
     [scalarField ''id'' ''Int'', scalarField ''name'' ''String'', scalarField ''email'' ''String'',
      objectField ''department'' ''Department'' False (Some ''DepartmentToEmployee''),
      scalarField ''departmentId'' ''Int'',
      objectField ''profile'' ''Profile'' False (Some ''EmployeeProfile''),
      objectField ''employeeProjects'' ''EmployeeProject'' True (Some ''EmployeeToEmployeeProject''),
      scalarField ''createdAt'' ''DateTime'', scalarField ''updatedAt'' ''DateTime'']\<rparr>"

definition Department :: model where
  "Department = \<lparr>m_name = ''Department'', m_fields =
     [scalarField ''id'' ''Int'', scalarField ''name'' ''String'',
      objectField ''employees'' ''Employee'' True (Some ''DepartmentToEmployee''),
      scalarField ''createdAt'' ''DateTime'', scalarField ''updatedAt'' ''DateTime'']\<rparr>"

definition Profile :: model where
  "Profile = \<lparr>m_name = ''Profile'', m_fields =
     [scalarField ''id'' ''Int'', scalarField ''bio'' ''String'',
      objectField ''employee'' ''Employee'' False (Some ''EmployeeProfile''),
      scalarField ''employeeId'' ''Int'',
      scalarField ''createdAt'' ''DateTime'', scalarField ''updatedAt'' ''DateTime'']\<rparr>"

definition Project :: model where
  "Project = \<lparr>m_name = ''Project'', m_fields =
     [scalarField ''id'' ''Int'', scalarField ''name'' ''String'',
      objectField ''employeeProjects'' ''EmployeeProject'' True (Some ''EmployeeProjectToProject''),
      scalarField ''createdAt'' ''DateTime'', scalarField ''updatedAt'' ''DateTime'']\<rparr>"

definition EmployeeProject :: model where
  "EmployeeProject = \<lparr>m_name = ''EmployeeProject'', m_fields =
     [scalarField ''id'' ''Int'',
      objectField ''employee'' ''Employee'' False (Some ''EmployeeToEmployeeProject''),
      scalarField ''employeeId'' ''Int'',
      objectField ''project'' ''Project'' False (Some ''EmployeeProjectToProject''),
      scalarField ''projectId'' ''Int'',
      scalarField ''assignedAt'' ''DateTime'']\<rparr>"

definition readmeSchema :: dmmf where
  "readmeSchema = \<lparr>models = [Employee, Department, Profile, Project, EmployeeProject]\<rparr>"

text \<open>
  A junction model with a single scalar field, whose name contains the names of both
  related models, and the same junction model without any scalar field.
\<close>

definition EmployeeLinked :: model where
  "EmployeeLinked = \<lparr>m_name = ''Employee'', m_fields =
     [scalarField ''id'' ''Int'',
      objectField ''employeeProjects'' ''EmployeeProject'' True (Some ''EmployeeToEmployeeProject'')]\<rparr>"

definition ProjectLinked :: model where
  "ProjectLinked = \<lparr>m_name = ''Project'', m_fields =
     [scalarField ''id'' ''Int'',
      objectField ''employeeProjects'' ''EmployeeProject'' True (Some ''EmployeeProjectToProject'')]\<rparr>"

definition EmployeeProjectKeyed :: model where
  "EmployeeProjectKeyed = \<lparr>m_name = ''EmployeeProject'', m_fields =
     [objectField ''employee'' ''Employee'' False (Some ''EmployeeToEmployeeProject''),
      objectField ''project'' ''Project'' False (Some ''EmployeeProjectToProject''),
      scalarField ''employeeProjectKey'' ''String'']\<rparr>"

definition EmployeeProjectBare :: model where
  "EmployeeProjectBare = \<lparr>m_name = ''EmployeeProject'', m_fields =
     [objectField ''employee'' ''Employee'' False (Some ''EmployeeToEmployeeProject''),
      objectField ''project'' ''Project'' False (Some ''EmployeeProjectToProject'')]\<rparr>"

definition singleScalarSchema :: dmmf where
  "singleScalarSchema = \<lparr>models = [EmployeeLinked, ProjectLinked, EmployeeProjectKeyed]\<rparr>"

definition noScalarSchema :: dmmf where
  "noScalarSchema = \<lparr>models = [EmployeeLinked, ProjectLinked, EmployeeProjectBare]\<rparr>"

text \<open>
  A graph that is not paired: Employee has a second, singular field typed EmployeeProject
  with the relation name of its list field, and EmployeeProject has no field for it.
\<close>

definition EmployeeWithLead :: model where
  "EmployeeWithLead = \<lparr>m_name = ''Employee'', m_fields =
     [scalarField ''id'' ''Int'',
      objectField ''employeeProjects'' ''EmployeeProject'' True (Some ''EmployeeToEmployeeProject''),
      objectField ''lead'' ''EmployeeProject'' False (Some ''EmployeeToEmployeeProject'')]\<rparr>"

definition unpairedSchema :: dmmf where
  "unpairedSchema = \<lparr>models = [EmployeeWithLead, ProjectLinked, EmployeeProjectKeyed]\<rparr>"

text \<open>A one-to-one self-relation: a user with a successor and a predecessor.\<close>

definition UserHistory :: model where
  "UserHistory = \<lparr>m_name = ''User'', m_fields =
     [scalarField ''id'' ''Int'',
      objectField ''successor'' ''User'' False (Some ''BlogOwnerHistory''),
      scalarField ''successorId'' ''Int'',
      objectField ''predecessor'' ''User'' False (Some ''BlogOwnerHistory'')]\<rparr>"

definition successorSchema :: dmmf where
  "successorSchema = \<lparr>models = [UserHistory]\<rparr>"

text \<open>
  A model with exactly two object fields that is no junction table: Profile has no list
  of employees.
\<close>

definition EmployeeOnly :: model where
  "EmployeeOnly = \<lparr>m_name = ''Employee'', m_fields =
     [scalarField ''id'' ''Int'',
      objectField ''department'' ''Department'' False (Some ''DepartmentToEmployee''),
      scalarField ''departmentId'' ''Int'',
      objectField ''profile'' ''Profile'' False (Some ''EmployeeProfile'')]\<rparr>"

definition boundarySchema :: dmmf where
  "boundarySchema = \<lparr>models = [EmployeeOnly, Department, Profile]\<rparr>"

text \<open>A model whose object fields name models that are not in the graph.\<close>

definition Order :: model where
  "Order = \<lparr>m_name = ''Order'', m_fields =
     [scalarField ''id'' ''Int'',
      objectField ''customer'' ''Customer'' False (Some ''CustomerToOrder''),
      objectField ''items'' ''Item'' True (Some ''ItemToOrder'')]\<rparr>"

definition danglingSchema :: dmmf where
  "danglingSchema = \<lparr>models = [Order]\<rparr>"

text \<open>A junction model whose two object fields name the same model.\<close>

definition UserFollows :: model where
  "UserFollows = \<lparr>m_name = ''User'', m_fields =
     [scalarField ''id'' ''Int'',
      objectField ''followedBy'' ''Follows'' True (Some ''followedBy''),
      objectField ''following'' ''Follows'' True (Some ''following'')]\<rparr>"

definition Follows :: model where
  "Follows = \<lparr>m_name = ''Follows'', m_fields =
     [objectField ''followedBy'' ''User'' False (Some ''followedBy''),
      scalarField ''followedById'' ''Int'',
      objectField ''following'' ''User'' False (Some ''following''),
      scalarField ''followingId'' ''Int'']\<rparr>"

definition followsSchema :: dmmf where
  "followsSchema = \<lparr>models = [UserFollows, Follows]\<rparr>"

section \<open>Properties\<close>

lemmas field_defs = scalarField_def objectField_def

lemmas readme_defs =
  field_defs Employee_def Department_def Profile_def Project_def EmployeeProject_def
  readmeSchema_def

lemmas scenarioA_defs = field_defs departmentA_def employeeA_def scenarioA_def

lemmas single_scalar_defs =
  field_defs EmployeeLinked_def ProjectLinked_def EmployeeProjectKeyed_def singleScalarSchema_def

lemmas successor_defs = field_defs UserHistory_def successorSchema_def

lemmas boundary_defs =
  field_defs EmployeeOnly_def Department_def Profile_def boundarySchema_def

lemmas follows_defs = field_defs UserFollows_def Follows_def followsSchema_def

lemmas many_to_many_defs =
  getManyToManyRelations_def junctionModels_def junctionEntry_def objectFields_def
  scalarFields_def findModel_def reciprocalListField_def scalarFieldFor_def scalarNameAt_def
  nameMatches_def toLowerCase_def toLowerChar_def

lemmas one_to_many_defs =
  getOneToManyRelations_def oneToManyField_def reciprocalSingleField_def

lemmas one_to_one_defs =
  getOneToOneRelations_def oneToOneField_def reciprocalSingleField_def Let_def

subsection \<open>Records are determined by their fields\<close>

lemma table_ref_eqI: "t_name a = n \<Longrightarrow> t_field a = fl \<Longrightarrow> a = \<lparr>t_name = n, t_field = fl\<rparr>"
  by (cases a) simp

lemma one_to_many_eqI: "otm_many r = a \<Longrightarrow> otm_one r = b \<Longrightarrow> r = \<lparr>otm_many = a, otm_one = b\<rparr>"
  by (cases r) simp

lemma one_to_one_eqI: "table_one r = a \<Longrightarrow> table_two r = b \<Longrightarrow> r = \<lparr>table_one = a, table_two = b\<rparr>"
  by (cases r) simp

subsection \<open>Strings\<close>

text \<open>The two string tests are the prefix and the contiguous-sublist relations on lists.\<close>

lemma startsWith_prefix: "startsWith s t \<longleftrightarrow> prefix t s"
  by (induction s t rule: startsWith.induct) auto

lemma includesStr_sublist: "includesStr s t \<longleftrightarrow> sublist t s"
  by (induction s) (simp_all add: startsWith_prefix sublist_Cons_right)

subsection \<open>The many-to-many classifier\<close>

text \<open>A run that does not throw returns the records of the junction models, in order.\<close>

lemma forEachJunction_Inr:
  "forEachJunction ms js acc = Inr rels \<Longrightarrow> rels = acc @ junctionRecords ms js"
proof (induction js arbitrary: acc)
  case Nil
  then show ?case by simp
next
  case (Cons j js)
  show ?case
  proof (cases "junctionEntry ms j")
    case None
    with Cons show ?thesis by simp
  next
    case (Some a)
    show ?thesis
    proof (cases a)
      case (Inl e)
      with Some Cons.prems show ?thesis by simp
    next
      case (Inr r)
      with Some Cons.prems have "forEachJunction ms js (acc @ [r]) = Inr rels" by simp
      then have "rels = (acc @ [r]) @ junctionRecords ms js" by (rule Cons.IH)
      with Some Inr show ?thesis by simp
    qed
  qed
qed

lemma forEachJunction_throws:
  assumes "junctionEntry ms j = Some (Inl e)"
  shows "forEachJunction ms (xs @ j # ys) acc \<noteq> Inr rels"
  using assms by (induction xs arbitrary: acc) (auto split: option.splits sum.splits)

lemma junctionEntry_name:
  "junctionEntry ms j = Some (Inr r) \<Longrightarrow> jt_name (junctionTable r) = m_name j"
  by (auto simp: junctionEntry_def split: list.splits option.splits sum.splits)

lemma junctionRecords_names:
  "r \<in> set (junctionRecords ms js) \<Longrightarrow> jt_name (junctionTable r) \<in> m_name ` set js"
  by (induction js) (auto split: option.splits sum.splits dest: junctionEntry_name)

lemma junctionRecords_filter_other:
  assumes "m_name j \<notin> m_name ` set js"
  shows "filter (\<lambda>x. jt_name (junctionTable x) = m_name j) (junctionRecords ms js) = []"
proof -
  have "jt_name (junctionTable x) \<noteq> m_name j" if "x \<in> set (junctionRecords ms js)" for x
    using junctionRecords_names [OF that] assms by auto
  then show ?thesis by (simp add: filter_empty_conv)
qed

lemma junctionRecords_filter_skip:
  assumes "m_name k \<noteq> m_name j"
  shows "filter (\<lambda>x. jt_name (junctionTable x) = m_name j) (junctionRecords ms (k # js)) =
         filter (\<lambda>x. jt_name (junctionTable x) = m_name j) (junctionRecords ms js)"
proof (cases "junctionEntry ms k")
  case None
  then show ?thesis by simp
next
  case (Some a)
  show ?thesis
  proof (cases a)
    case (Inl e)
    with Some show ?thesis by simp
  next
    case (Inr q)
    with Some have "jt_name (junctionTable q) = m_name k" by (simp add: junctionEntry_name)
    with Some Inr assms show ?thesis by simp
  qed
qed

lemma junctionRecords_filter_one:
  assumes "distinct (map m_name js)" and "j \<in> set js" and "junctionEntry ms j = Some (Inr r)"
  shows "filter (\<lambda>x. jt_name (junctionTable x) = m_name j) (junctionRecords ms js) = [r]"
  using assms
proof (induction js)
  case Nil
  then show ?case by simp
next
  case (Cons k js)
  show ?case
  proof (cases "k = j")
    case True
    with Cons.prems have "m_name j \<notin> m_name ` set js" by auto
    then have "filter (\<lambda>x. jt_name (junctionTable x) = m_name j) (junctionRecords ms js) = []"
      by (rule junctionRecords_filter_other)
    with True Cons.prems(3) show ?thesis
      by (simp add: junctionEntry_name)
  next
    case False
    with Cons.prems have j: "j \<in> set js" and ne: "m_name k \<noteq> m_name j" by auto
    have "filter (\<lambda>x. jt_name (junctionTable x) = m_name j) (junctionRecords ms js) = [r]"
      using Cons.IH Cons.prems j by simp
    with junctionRecords_filter_skip [OF ne] show ?thesis by simp
  qed
qed

lemma junctionRecords_filter_none:
  assumes "distinct (map m_name js)" and "j \<in> set js" and "junctionEntry ms j = None"
  shows "filter (\<lambda>x. jt_name (junctionTable x) = m_name j) (junctionRecords ms js) = []"
  using assms
proof (induction js)
  case Nil
  then show ?case by simp
next
  case (Cons k js)
  show ?case
  proof (cases "k = j")
    case True
    with Cons.prems have "m_name j \<notin> m_name ` set js" by auto
    then have "filter (\<lambda>x. jt_name (junctionTable x) = m_name j) (junctionRecords ms js) = []"
      by (rule junctionRecords_filter_other)
    with True Cons.prems(3) show ?thesis by simp
  next
    case False
    with Cons.prems have j: "j \<in> set js" and ne: "m_name k \<noteq> m_name j" by auto
    have "filter (\<lambda>x. jt_name (junctionTable x) = m_name j) (junctionRecords ms js) = []"
      using Cons.IH Cons.prems j by simp
    with junctionRecords_filter_skip [OF ne] show ?thesis by simp
  qed
qed

lemma distinct_junctionModels:
  "distinct (map m_name ms) \<Longrightarrow> distinct (map m_name (junctionModels ms))"
  by (simp add: junctionModels_def distinct_map_filter)

text \<open>The entry of a model with two object fields whose four lookups succeed.\<close>

lemma junctionEntry_resolved:
  assumes "objectFields j = [f1, f2]"
    and "findModel ms (f_type f1) = Some A" and "findModel ms (f_type f2) = Some B"
    and "reciprocalListField A (m_name j) = Some c1"
    and "reciprocalListField B (m_name j) = Some c2"
  shows "junctionEntry ms j =
     Some (case scalarFieldFor (scalarFields j) (m_name A) 0 of
             Inl e \<Rightarrow> Inl e
           | Inr a \<Rightarrow>
          (case scalarFieldFor (scalarFields j) (m_name B) 1 of
             Inl e \<Rightarrow> Inl e
           | Inr b \<Rightarrow>
             Inr \<lparr>relationTable =
                    (\<lparr>t_name = m_name A, t_field = f_name c1\<rparr>,
                     \<lparr>t_name = m_name B, t_field = f_name c2\<rparr>),
                  junctionTable =
                    \<lparr>jt_name = m_name j,
                     jt_keys =
                       setKey (setKey [] (m_name A @ ''Field'') a)
                         (m_name B @ ''Field'') b\<rparr>\<rparr>))"
  using assms by (simp add: junctionEntry_def)

text \<open>An object field without a resolvable list reciprocal makes the callback return early.\<close>

lemma junctionEntry_unresolved:
  assumes "f \<in> set (objectFields j)" and "noListReciprocal ms j f"
  shows "junctionEntry ms j = None"
proof (cases "\<exists>f1 f2. objectFields j = [f1, f2]")
  case False
  then show ?thesis
    by (auto simp: junctionEntry_def split: list.splits)
next
  case True
  then obtain f1 f2 where o: "objectFields j = [f1, f2]" by blast
  with assms(1) have "f = f1 \<or> f = f2" by simp
  with assms(2) o show ?thesis
    by (auto simp: junctionEntry_def noListReciprocal_def split: option.splits)
qed

lemma scalarFieldFor_first_match:
  assumes "i < length sc" and "\<forall>f\<in>set sc. f_name f \<noteq> []"
  shows "\<exists>a. scalarFieldFor sc relatedName i = Inr a \<and> firstMatchOr sc relatedName i a"
proof (cases "find (nameMatches relatedName) sc")
  case None
  then have "\<forall>f\<in>set sc. \<not> nameMatches relatedName f" by (simp add: find_None_iff)
  with None assms(1) show ?thesis
    by (simp add: scalarFieldFor_def scalarNameAt_def firstMatchOr_def)
next
  case (Some f)
  then obtain k where k: "k < length sc" "nameMatches relatedName (sc ! k)" "f = sc ! k"
    "\<forall>i<k. \<not> nameMatches relatedName (sc ! i)"
    by (auto simp: find_Some_iff)
  from k(1,3) assms(2) have "f_name f \<noteq> []" by simp
  with Some have "scalarFieldFor sc relatedName i = Inr (f_name f)"
    by (simp add: scalarFieldFor_def)
  with k show ?thesis unfolding firstMatchOr_def by blast
qed

text \<open>
  C2, as stated (every junction table yields two directional records, one for (A, B, J)
  and one for (B, A, J)), does not hold: for the README schema, whose junction table
  EmployeeProject connects Employee and Project, the many-to-many result is a single
  record, for (Employee, Project, EmployeeProject).
\<close>

theorem readme_manyToMany_counterexample:
  "getManyToManyRelations readmeSchema =
     Inr [\<lparr>relationTable =
            (\<lparr>t_name = ''Employee'', t_field = ''employeeProjects''\<rparr>,
             \<lparr>t_name = ''Project'', t_field = ''employeeProjects''\<rparr>),
          junctionTable =
            \<lparr>jt_name = ''EmployeeProject'',
             jt_keys = [(''EmployeeField'', ''employeeId''), (''ProjectField'', ''projectId'')]\<rparr>\<rparr>]"
  by (simp add: many_to_many_defs readme_defs)

text \<open>
  C2, amended. In a graph with distinct model names, for every junction table J (a model
  with exactly two object fields, whose referenced models A and B both exist and both have
  a list-typed object field typed J), a many-to-many result that is returned holds exactly
  one record with the junction name J, and that record lists A and then B, in the order of
  the two object fields of J, each with the name of its list field.
\<close>

theorem manyToMany_one_record_per_junction:
  assumes "distinct (map m_name (models d))" and "j \<in> set (models d)"
    and "objectFields j = [f1, f2]"
    and "findModel (models d) (f_type f1) = Some A"
    and "findModel (models d) (f_type f2) = Some B"
    and "reciprocalListField A (m_name j) = Some c1"
    and "reciprocalListField B (m_name j) = Some c2"
    and "getManyToManyRelations d = Inr rels"
  shows "\<exists>r. filter (\<lambda>x. jt_name (junctionTable x) = m_name j) rels = [r] \<and>
             relationTable r =
               (\<lparr>t_name = m_name A, t_field = f_name c1\<rparr>,
                \<lparr>t_name = m_name B, t_field = f_name c2\<rparr>)"
proof -
  let ?ms = "models d"
  have rels: "rels = junctionRecords ?ms (junctionModels ?ms)"
    using assms(8) forEachJunction_Inr [of ?ms "junctionModels ?ms" "[]" rels]
    by (simp add: getManyToManyRelations_def)
  have jm: "j \<in> set (junctionModels ?ms)"
    using assms(2,3) by (simp add: junctionModels_def)
  have entry: "junctionEntry ?ms j \<noteq> None"
    using junctionEntry_resolved [OF assms(3-7)] by simp
  have no_err: "junctionEntry ?ms j \<noteq> Some (Inl e)" for e
  proof
    assume e: "junctionEntry ?ms j = Some (Inl e)"
    from jm obtain xs ys where "junctionModels ?ms = xs @ j # ys"
      by (auto simp: in_set_conv_decomp)
    with assms(8) forEachJunction_throws [OF e, of xs ys "[]" rels] show False
      by (simp add: getManyToManyRelations_def)
  qed
  obtain r where r: "junctionEntry ?ms j = Some (Inr r)"
  proof (cases "junctionEntry ?ms j")
    case None
    with entry show ?thesis by simp
  next
    case (Some a)
    with no_err that show ?thesis by (cases a) blast+
  qed
  have "filter (\<lambda>x. jt_name (junctionTable x) = m_name j) rels = [r]"
    unfolding rels
    using distinct_junctionModels [OF assms(1)] jm r by (rule junctionRecords_filter_one)
  moreover have "relationTable r =
               (\<lparr>t_name = m_name A, t_field = f_name c1\<rparr>,
                \<lparr>t_name = m_name B, t_field = f_name c2\<rparr>)"
    using r junctionEntry_resolved [OF assms(3-7)]
    by (auto split: sum.splits)
  ultimately show ?thesis by blast
qed

theorem manyToMany_one_record_per_junction_witness:
  "distinct (map m_name (models readmeSchema)) \<and>
   EmployeeProject \<in> set (models readmeSchema) \<and>
   objectFields EmployeeProject =
     [objectField ''employee'' ''Employee'' False (Some ''EmployeeToEmployeeProject''),
      objectField ''project'' ''Project'' False (Some ''EmployeeProjectToProject'')] \<and>
   findModel (models readmeSchema) ''Employee'' = Some Employee \<and>
   findModel (models readmeSchema) ''Project'' = Some Project \<and>
   reciprocalListField Employee ''EmployeeProject'' =
     Some (objectField ''employeeProjects'' ''EmployeeProject'' True
             (Some ''EmployeeToEmployeeProject'')) \<and>
   reciprocalListField Project ''EmployeeProject'' =
     Some (objectField ''employeeProjects'' ''EmployeeProject'' True
             (Some ''EmployeeProjectToProject'')) \<and>
   (\<exists>rels r. getManyToManyRelations readmeSchema = Inr rels \<and>
      filter (\<lambda>x. jt_name (junctionTable x) = ''EmployeeProject'') rels = [r] \<and>
      relationTable r =
        (\<lparr>t_name = ''Employee'', t_field = ''employeeProjects''\<rparr>,
         \<lparr>t_name = ''Project'', t_field = ''employeeProjects''\<rparr>))"
proof -
  let ?f1 = "objectField ''employee'' ''Employee'' False (Some ''EmployeeToEmployeeProject'')"
  let ?f2 = "objectField ''project'' ''Project'' False (Some ''EmployeeProjectToProject'')"
  let ?c1 = "objectField ''employeeProjects'' ''EmployeeProject'' True
               (Some ''EmployeeToEmployeeProject'')"
  let ?c2 = "objectField ''employeeProjects'' ''EmployeeProject'' True
               (Some ''EmployeeProjectToProject'')"
  have h1: "distinct (map m_name (models readmeSchema))"
    by (simp add: readme_defs)
  have h2: "EmployeeProject \<in> set (models readmeSchema)"
    by (simp add: readmeSchema_def)
  have h3: "objectFields EmployeeProject = [?f1, ?f2]"
    by (simp add: objectFields_def readme_defs)
  have h4: "findModel (models readmeSchema) (f_type ?f1) = Some Employee"
    by (simp add: findModel_def readme_defs)
  have h5: "findModel (models readmeSchema) (f_type ?f2) = Some Project"
    by (simp add: findModel_def readme_defs)
  have h6: "reciprocalListField Employee (m_name EmployeeProject) = Some ?c1"
    by (simp add: reciprocalListField_def readme_defs)
  have h7: "reciprocalListField Project (m_name EmployeeProject) = Some ?c2"
    by (simp add: reciprocalListField_def readme_defs)
  obtain rels where h8: "getManyToManyRelations readmeSchema = Inr rels"
    by (simp add: many_to_many_defs readme_defs)
  from manyToMany_one_record_per_junction [OF h1 h2 h3 h4 h5 h6 h7 h8] h8
  have "\<exists>rels r. getManyToManyRelations readmeSchema = Inr rels \<and>
      filter (\<lambda>x. jt_name (junctionTable x) = ''EmployeeProject'') rels = [r] \<and>
      relationTable r =
        (\<lparr>t_name = ''Employee'', t_field = ''employeeProjects''\<rparr>,
         \<lparr>t_name = ''Project'', t_field = ''employeeProjects''\<rparr>)"
    by (auto simp: readme_defs)
  with h1 h2 h3 h4 h5 h6 h7 show ?thesis
    by (simp add: scalarField_def objectField_def EmployeeProject_def)
qed

text \<open>
  C3, as stated (a junction-table candidate with both reciprocal list fields resolved and
  fewer than two scalar fields is skipped), does not hold: the junction model of this graph
  has a single scalar field, whose name contains the names of both related models, and its
  record is emitted.
\<close>

theorem single_scalar_junction_counterexample:
  "getManyToManyRelations singleScalarSchema =
     Inr [\<lparr>relationTable =
            (\<lparr>t_name = ''Employee'', t_field = ''employeeProjects''\<rparr>,
             \<lparr>t_name = ''Project'', t_field = ''employeeProjects''\<rparr>),
          junctionTable =
            \<lparr>jt_name = ''EmployeeProject'',
             jt_keys = [(''EmployeeField'', ''employeeProjectKey''),
                        (''ProjectField'', ''employeeProjectKey'')]\<rparr>\<rparr>]"
  by (simp add: many_to_many_defs single_scalar_defs)

text \<open>
  Without any scalar field the fallback \<^verbatim>\<open>scalarFields[0].name\<close> reads a property of
  \<^verbatim>\<open>undefined\<close>, and the exception leaves the classifier.
\<close>

lemma no_scalar_junction_throws:
  "getManyToManyRelations noScalarSchema = Inl TypeError"
  by (simp add: many_to_many_defs field_defs EmployeeLinked_def ProjectLinked_def
      EmployeeProjectBare_def noScalarSchema_def)

text \<open>
  C3, amended. For a junction-table candidate with both reciprocal list fields resolved
  and fewer than two scalar fields, when a scalar field with a non-empty name contains the
  name of the second related model (case-insensitively), the candidate is not skipped: its
  record is emitted, with that scalar field reported for both sides, no exception is
  raised for it, and the loop goes on to the remaining junction models with the records
  collected so far unchanged.
\<close>

theorem single_scalar_junction_emitted:
  assumes "objectFields j = [f1, f2]"
    and "findModel ms (f_type f1) = Some A" and "findModel ms (f_type f2) = Some B"
    and "reciprocalListField A (m_name j) = Some c1"
    and "reciprocalListField B (m_name j) = Some c2"
    and "length (scalarFields j) < 2"
    and "s \<in> set (scalarFields j)" and "f_name s \<noteq> []" and "nameMatches (m_name B) s"
    and "r = \<lparr>relationTable =
                (\<lparr>t_name = m_name A, t_field = f_name c1\<rparr>,
                 \<lparr>t_name = m_name B, t_field = f_name c2\<rparr>),
              junctionTable =
                \<lparr>jt_name = m_name j,
                 jt_keys = setKey (setKey [] (m_name A @ ''Field'') (f_name s))
                             (m_name B @ ''Field'') (f_name s)\<rparr>\<rparr>"
  shows "junctionEntry ms j = Some (Inr r) \<and>
         forEachJunction ms (j # js) acc = forEachJunction ms js (acc @ [r])"
proof -
  from assms(6,7) have sc: "scalarFields j = [s]"
    by (cases "scalarFields j") (auto simp: less_Suc_eq numeral_2_eq_2)
  have a: "scalarFieldFor (scalarFields j) (m_name A) 0 = Inr (f_name s)"
    using assms(8) by (simp add: sc scalarFieldFor_def scalarNameAt_def)
  have b: "scalarFieldFor (scalarFields j) (m_name B) 1 = Inr (f_name s)"
    using assms(8,9) by (simp add: sc scalarFieldFor_def scalarNameAt_def)
  have "junctionEntry ms j = Some (Inr r)"
    using junctionEntry_resolved [OF assms(1-5)] a b assms(10) by simp
  then show ?thesis by simp
qed

theorem single_scalar_junction_emitted_witness:
  "objectFields EmployeeProjectKeyed =
     [objectField ''employee'' ''Employee'' False (Some ''EmployeeToEmployeeProject''),
      objectField ''project'' ''Project'' False (Some ''EmployeeProjectToProject'')] \<and>
   findModel (models singleScalarSchema) ''Employee'' = Some EmployeeLinked \<and>
   findModel (models singleScalarSchema) ''Project'' = Some ProjectLinked \<and>
   scalarFields EmployeeProjectKeyed = [scalarField ''employeeProjectKey'' ''String''] \<and>
   nameMatches ''Project'' (scalarField ''employeeProjectKey'' ''String'') \<and>
   junctionEntry (models singleScalarSchema) EmployeeProjectKeyed =
     Some (Inr \<lparr>relationTable =
                  (\<lparr>t_name = ''Employee'', t_field = ''employeeProjects''\<rparr>,
                   \<lparr>t_name = ''Project'', t_field = ''employeeProjects''\<rparr>),
                junctionTable =
                  \<lparr>jt_name = ''EmployeeProject'',
                   jt_keys = [(''EmployeeField'', ''employeeProjectKey''),
                              (''ProjectField'', ''employeeProjectKey'')]\<rparr>\<rparr>) \<and>
   forEachJunction (models singleScalarSchema) [EmployeeProjectKeyed] [] =
     Inr [\<lparr>relationTable =
            (\<lparr>t_name = ''Employee'', t_field = ''employeeProjects''\<rparr>,
             \<lparr>t_name = ''Project'', t_field = ''employeeProjects''\<rparr>),
          junctionTable =
            \<lparr>jt_name = ''EmployeeProject'',
             jt_keys = [(''EmployeeField'', ''employeeProjectKey''),
                        (''ProjectField'', ''employeeProjectKey'')]\<rparr>\<rparr>]"
proof -
  let ?ms = "models singleScalarSchema"
  let ?j = EmployeeProjectKeyed
  let ?f1 = "objectField ''employee'' ''Employee'' False (Some ''EmployeeToEmployeeProject'')"
  let ?f2 = "objectField ''project'' ''Project'' False (Some ''EmployeeProjectToProject'')"
  let ?c1 = "objectField ''employeeProjects'' ''EmployeeProject'' True
               (Some ''EmployeeToEmployeeProject'')"
  let ?c2 = "objectField ''employeeProjects'' ''EmployeeProject'' True
               (Some ''EmployeeProjectToProject'')"
  let ?s = "scalarField ''employeeProjectKey'' ''String''"
  have h1: "objectFields ?j = [?f1, ?f2]"
    by (simp add: objectFields_def EmployeeProjectKeyed_def scalarField_def objectField_def)
  have h2: "findModel ?ms (f_type ?f1) = Some EmployeeLinked"
    by (simp add: findModel_def singleScalarSchema_def objectField_def EmployeeLinked_def)
  have h3: "findModel ?ms (f_type ?f2) = Some ProjectLinked"
    by (simp add: findModel_def singleScalarSchema_def objectField_def EmployeeLinked_def
        ProjectLinked_def)
  have h4: "reciprocalListField EmployeeLinked (m_name ?j) = Some ?c1"
    by (simp add: reciprocalListField_def EmployeeProjectKeyed_def EmployeeLinked_def
        scalarField_def objectField_def)
  have h5: "reciprocalListField ProjectLinked (m_name ?j) = Some ?c2"
    by (simp add: reciprocalListField_def EmployeeProjectKeyed_def ProjectLinked_def
        scalarField_def objectField_def)
  have sc: "scalarFields ?j = [?s]"
    by (simp add: scalarFields_def EmployeeProjectKeyed_def scalarField_def objectField_def)
  have h6: "length (scalarFields ?j) < 2" by (simp add: sc)
  have h7: "?s \<in> set (scalarFields ?j)" by (simp add: sc)
  have h8: "f_name ?s \<noteq> []" by (simp add: scalarField_def)
  have h9: "nameMatches (m_name ProjectLinked) ?s"
    by (simp add: nameMatches_def toLowerCase_def toLowerChar_def scalarField_def
        ProjectLinked_def)
  from single_scalar_junction_emitted [OF h1 h2 h3 h4 h5 h6 h7 h8 h9 refl, of "[]" "[]"]
    h1 h2 h3 sc h9
  show ?thesis
    by (simp add: EmployeeProjectKeyed_def EmployeeLinked_def ProjectLinked_def
        scalarField_def objectField_def)
qed

text \<open>
  C8. For a junction table with two distinct related entities A and B and at least two
  scalar fields (all with non-empty names), the junction-table record is emitted, and the
  scalar field it reports under the key of A is the first scalar field, in declaration
  order, whose name contains the name of A as a case-insensitive substring, or, when no
  scalar field has such a name, the first scalar field; under the key of B it reports the
  first scalar field whose name contains the name of B, or, when there is none, the second
  scalar field.
\<close>

theorem junction_scalar_fields:
  assumes "objectFields j = [f1, f2]"
    and "findModel ms (f_type f1) = Some A" and "findModel ms (f_type f2) = Some B"
    and "reciprocalListField A (m_name j) = Some c1"
    and "reciprocalListField B (m_name j) = Some c2"
    and "m_name A \<noteq> m_name B"
    and "2 \<le> length (scalarFields j)"
    and "\<forall>f\<in>set (scalarFields j). f_name f \<noteq> []"
  shows "\<exists>r a b. junctionEntry ms j = Some (Inr r) \<and>
           jt_keys (junctionTable r) = [(m_name A @ ''Field'', a), (m_name B @ ''Field'', b)] \<and>
           firstMatchOr (scalarFields j) (m_name A) 0 a \<and>
           firstMatchOr (scalarFields j) (m_name B) 1 b"
proof -
  let ?sc = "scalarFields j"
  from assms(7) have "0 < length ?sc" "1 < length ?sc" by linarith+
  with assms(8) obtain a b where
    a: "scalarFieldFor ?sc (m_name A) 0 = Inr a" "firstMatchOr ?sc (m_name A) 0 a" and
    b: "scalarFieldFor ?sc (m_name B) 1 = Inr b" "firstMatchOr ?sc (m_name B) 1 b"
    using scalarFieldFor_first_match [of 0 ?sc "m_name A"]
      scalarFieldFor_first_match [of 1 ?sc "m_name B"] by blast
  have "junctionEntry ms j =
      Some (Inr \<lparr>relationTable =
                   (\<lparr>t_name = m_name A, t_field = f_name c1\<rparr>,
                    \<lparr>t_name = m_name B, t_field = f_name c2\<rparr>),
                 junctionTable =
                   \<lparr>jt_name = m_name j,
                    jt_keys = [(m_name A @ ''Field'', a), (m_name B @ ''Field'', b)]\<rparr>\<rparr>)"
    using junctionEntry_resolved [OF assms(1-5)] a(1) b(1) assms(6) by simp
  with a(2) b(2) show ?thesis by simp
qed

theorem junction_scalar_fields_witness:
  "objectFields EmployeeProject =
     [objectField ''employee'' ''Employee'' False (Some ''EmployeeToEmployeeProject''),
      objectField ''project'' ''Project'' False (Some ''EmployeeProjectToProject'')] \<and>
   findModel (models readmeSchema) ''Employee'' = Some Employee \<and>
   findModel (models readmeSchema) ''Project'' = Some Project \<and>
   scalarFields EmployeeProject =
     [scalarField ''id'' ''Int'', scalarField ''employeeId'' ''Int'',
      scalarField ''projectId'' ''Int'', scalarField ''assignedAt'' ''DateTime''] \<and>
   (\<exists>r a b. junctionEntry (models readmeSchema) EmployeeProject = Some (Inr r) \<and>
      jt_keys (junctionTable r) = [(''EmployeeField'', a), (''ProjectField'', b)] \<and>
      firstMatchOr (scalarFields EmployeeProject) ''Employee'' 0 a \<and>
      firstMatchOr (scalarFields EmployeeProject) ''Project'' 1 b) \<and>
   junctionEntry (models readmeSchema) EmployeeProject =
     Some (Inr \<lparr>relationTable =
                  (\<lparr>t_name = ''Employee'', t_field = ''employeeProjects''\<rparr>,
                   \<lparr>t_name = ''Project'', t_field = ''employeeProjects''\<rparr>),
                junctionTable =
                  \<lparr>jt_name = ''EmployeeProject'',
                   jt_keys = [(''EmployeeField'', ''employeeId''),
                              (''ProjectField'', ''projectId'')]\<rparr>\<rparr>)"
proof -
  let ?ms = "models readmeSchema"
  let ?f1 = "objectField ''employee'' ''Employee'' False (Some ''EmployeeToEmployeeProject'')"
  let ?f2 = "objectField ''project'' ''Project'' False (Some ''EmployeeProjectToProject'')"
  let ?c1 = "objectField ''employeeProjects'' ''EmployeeProject'' True
               (Some ''EmployeeToEmployeeProject'')"
  let ?c2 = "objectField ''employeeProjects'' ''EmployeeProject'' True
               (Some ''EmployeeProjectToProject'')"
  have h1: "objectFields EmployeeProject = [?f1, ?f2]"
    by (simp add: objectFields_def readme_defs)
  have h2: "findModel ?ms (f_type ?f1) = Some Employee"
    by (simp add: findModel_def readme_defs)
  have h3: "findModel ?ms (f_type ?f2) = Some Project"
    by (simp add: findModel_def readme_defs)
  have h4: "reciprocalListField Employee (m_name EmployeeProject) = Some ?c1"
    by (simp add: reciprocalListField_def readme_defs)
  have h5: "reciprocalListField Project (m_name EmployeeProject) = Some ?c2"
    by (simp add: reciprocalListField_def readme_defs)
  have h6: "m_name Employee \<noteq> m_name Project"
    by (simp add: readme_defs)
  have sc: "scalarFields EmployeeProject =
     [scalarField ''id'' ''Int'', scalarField ''employeeId'' ''Int'',
      scalarField ''projectId'' ''Int'', scalarField ''assignedAt'' ''DateTime'']"
    by (simp add: scalarFields_def readme_defs)
  have h7: "2 \<le> length (scalarFields EmployeeProject)"
    by (simp add: sc)
  have h8: "\<forall>f\<in>set (scalarFields EmployeeProject). f_name f \<noteq> []"
    by (simp add: sc scalarField_def)
  have n: "m_name Employee = ''Employee''" "m_name Project = ''Project''"
    by (simp_all add: Employee_def Project_def)
  have e: "junctionEntry ?ms EmployeeProject =
     Some (Inr \<lparr>relationTable =
                  (\<lparr>t_name = ''Employee'', t_field = ''employeeProjects''\<rparr>,
                   \<lparr>t_name = ''Project'', t_field = ''employeeProjects''\<rparr>),
                junctionTable =
                  \<lparr>jt_name = ''EmployeeProject'',
                   jt_keys = [(''EmployeeField'', ''employeeId''),
                              (''ProjectField'', ''projectId'')]\<rparr>\<rparr>)"
    by (simp add: many_to_many_defs readme_defs)
  from junction_scalar_fields [OF h1 h2 h3 h4 h5 h6 h7 h8]
  have "\<exists>r a b. junctionEntry ?ms EmployeeProject = Some (Inr r) \<and>
      jt_keys (junctionTable r) = [(''EmployeeField'', a), (''ProjectField'', b)] \<and>
      firstMatchOr (scalarFields EmployeeProject) ''Employee'' 0 a \<and>
      firstMatchOr (scalarFields EmployeeProject) ''Project'' 1 b"
    by (simp add: n)
  moreover have "findModel ?ms ''Employee'' = Some Employee" "findModel ?ms ''Project'' = Some Project"
    using h2 h3 by (simp_all add: objectField_def)
  ultimately show ?thesis using h1 sc e by blast
qed

text \<open>
  C10. For a model with exactly two object fields that both reference the same entity E,
  where E has a list-typed object field back to it: the many-to-many record that is
  emitted lists E in both entries of the relation table, with the same reciprocal field
  name, and its junction table carries a single computed key, the name of E followed by
  \<open>Field\<close>, whose value is the scalar field chosen for the second side.
\<close>

theorem same_entity_junction:
  assumes "objectFields j = [f1, f2]" and "f_type f1 = f_type f2"
    and "findModel ms (f_type f1) = Some E"
    and "reciprocalListField E (m_name j) = Some c"
    and "junctionEntry ms j = Some (Inr r)"
  shows "relationTable r =
           (\<lparr>t_name = m_name E, t_field = f_name c\<rparr>, \<lparr>t_name = m_name E, t_field = f_name c\<rparr>) \<and>
         (\<exists>b. scalarFieldFor (scalarFields j) (m_name E) 1 = Inr b \<and>
              jt_keys (junctionTable r) = [(m_name E @ ''Field'', b)])"
proof -
  from assms(2,3) have E2: "findModel ms (f_type f2) = Some E" by simp
  show ?thesis
    using junctionEntry_resolved [OF assms(1,3) E2 assms(4,4)] assms(5)
    by (auto split: sum.splits)
qed

theorem same_entity_junction_witness:
  "objectFields Follows =
     [objectField ''followedBy'' ''User'' False (Some ''followedBy''),
      objectField ''following'' ''User'' False (Some ''following'')] \<and>
   findModel (models followsSchema) ''User'' = Some UserFollows \<and>
   reciprocalListField UserFollows ''Follows'' =
     Some (objectField ''followedBy'' ''Follows'' True (Some ''followedBy'')) \<and>
   scalarFieldFor (scalarFields Follows) ''User'' 0 = Inr ''followedById'' \<and>
   scalarFieldFor (scalarFields Follows) ''User'' 1 = Inr ''followingId'' \<and>
   junctionEntry (models followsSchema) Follows =
     Some (Inr \<lparr>relationTable =
                  (\<lparr>t_name = ''User'', t_field = ''followedBy''\<rparr>,
                   \<lparr>t_name = ''User'', t_field = ''followedBy''\<rparr>),
                junctionTable =
                  \<lparr>jt_name = ''Follows'', jt_keys = [(''UserField'', ''followingId'')]\<rparr>\<rparr>)"
proof -
  let ?ms = "models followsSchema"
  let ?f1 = "objectField ''followedBy'' ''User'' False (Some ''followedBy'')"
  let ?f2 = "objectField ''following'' ''User'' False (Some ''following'')"
  let ?c = "objectField ''followedBy'' ''Follows'' True (Some ''followedBy'')"
  obtain r where r: "junctionEntry ?ms Follows = Some (Inr r)"
    by (simp add: many_to_many_defs follows_defs)
  have h1: "objectFields Follows = [?f1, ?f2]"
    by (simp add: objectFields_def follows_defs)
  have h2: "f_type ?f1 = f_type ?f2"
    by (simp add: objectField_def)
  have h3: "findModel ?ms (f_type ?f1) = Some UserFollows"
    by (simp add: findModel_def follows_defs)
  have h4: "reciprocalListField UserFollows (m_name Follows) = Some ?c"
    by (simp add: reciprocalListField_def follows_defs)
  have a: "scalarFieldFor (scalarFields Follows) ''User'' 0 = Inr ''followedById''"
    by (simp add: many_to_many_defs follows_defs)
  have b: "scalarFieldFor (scalarFields Follows) ''User'' 1 = Inr ''followingId''"
    by (simp add: many_to_many_defs follows_defs)
  have n: "jt_name (junctionTable r) = ''Follows''"
    using junctionEntry_name [OF r] by (simp add: Follows_def)
  from same_entity_junction [OF h1 h2 h3 h4 r] b
  have "relationTable r =
          (\<lparr>t_name = ''User'', t_field = ''followedBy''\<rparr>,
           \<lparr>t_name = ''User'', t_field = ''followedBy''\<rparr>) \<and>
        jt_keys (junctionTable r) = [(''UserField'', ''followingId'')]"
    by (simp add: UserFollows_def objectField_def)
  with n have "r = \<lparr>relationTable =
                  (\<lparr>t_name = ''User'', t_field = ''followedBy''\<rparr>,
                   \<lparr>t_name = ''User'', t_field = ''followedBy''\<rparr>),
                junctionTable =
                  \<lparr>jt_name = ''Follows'', jt_keys = [(''UserField'', ''followingId'')]\<rparr>\<rparr>"
    by (cases r, cases "junctionTable r") simp
  with r h1 h3 h4 a b show ?thesis
    by (simp add: objectField_def Follows_def)
qed

subsection \<open>The one-to-many classifier\<close>

lemma oneToManyField_mono: "set acc \<subseteq> set (oneToManyField ms m f acc)"
  by (auto simp: oneToManyField_def split: option.splits)

lemma fold_oneToManyField_mono: "set acc \<subseteq> set (fold (oneToManyField ms m) fs acc)"
proof (induction fs arbitrary: acc)
  case Nil
  show ?case by simp
next
  case (Cons f fs)
  have "set acc \<subseteq> set (oneToManyField ms m f acc)" by (rule oneToManyField_mono)
  also have "\<dots> \<subseteq> set (fold (oneToManyField ms m) fs (oneToManyField ms m f acc))"
    by (rule Cons.IH)
  finally show ?case by simp
qed

lemma fold_models_oneToMany_mono:
  "set acc \<subseteq> set (fold (\<lambda>model. fold (oneToManyField ms model) (m_fields model)) ns acc)"
proof (induction ns arbitrary: acc)
  case Nil
  show ?case by simp
next
  case (Cons n ns)
  have "set acc \<subseteq> set (fold (oneToManyField ms n) (m_fields n) acc)"
    by (rule fold_oneToManyField_mono)
  also have "\<dots> \<subseteq> set (fold (\<lambda>model. fold (oneToManyField ms model) (m_fields model)) ns
                          (fold (oneToManyField ms n) (m_fields n) acc))"
    by (rule Cons.IH)
  finally show ?case by simp
qed

lemma oneToManyField_emits:
  assumes "f_kind f = ''object''" and "f_isList f"
    and "find (\<lambda>m'. m_name m' = f_type f) ms = Some rm"
    and "reciprocalSingleField rm (m_name m) (f_relationName f) = Some rf"
  shows "\<lparr>otm_many = \<lparr>t_name = m_name rm, t_field = f_name rf\<rparr>,
          otm_one = \<lparr>t_name = m_name m, t_field = f_name f\<rparr>\<rparr>
         \<in> set (oneToManyField ms m f acc)"
proof -
  from assms(3) have ex: "list_ex (\<lambda>m'. m_name m' = f_type f) ms"
    by (auto simp: find_Some_iff list_ex_iff)
  let ?r = "\<lparr>otm_many = \<lparr>t_name = m_name rm, t_field = f_name rf\<rparr>,
             otm_one = \<lparr>t_name = m_name m, t_field = f_name f\<rparr>\<rparr>"
  have dup: "?r \<in> set acc"
    if "list_ex (\<lambda>rel. t_name (otm_one rel) = m_name m \<and> t_field (otm_one rel) = f_name f \<and>
                       t_name (otm_many rel) = m_name rm \<and> t_field (otm_many rel) = f_name rf) acc"
  proof -
    from that obtain rel where rel: "rel \<in> set acc" "t_name (otm_one rel) = m_name m"
      "t_field (otm_one rel) = f_name f" "t_name (otm_many rel) = m_name rm"
      "t_field (otm_many rel) = f_name rf"
      by (auto simp: list_ex_iff)
    have "rel = ?r"
      by (intro one_to_many_eqI table_ref_eqI rel(2-5))
    with rel(1) show ?thesis by simp
  qed
  show ?thesis using assms ex dup
    by (auto simp: oneToManyField_def)
qed

lemma fold_fields_oneToMany_emits:
  assumes "f \<in> set fs"
    and "f_kind f = ''object''" and "f_isList f"
    and "find (\<lambda>m'. m_name m' = f_type f) ms = Some rm"
    and "reciprocalSingleField rm (m_name m) (f_relationName f) = Some rf"
  shows "\<lparr>otm_many = \<lparr>t_name = m_name rm, t_field = f_name rf\<rparr>,
          otm_one = \<lparr>t_name = m_name m, t_field = f_name f\<rparr>\<rparr>
         \<in> set (fold (oneToManyField ms m) fs acc)"
  using assms(1)
proof (induction fs arbitrary: acc)
  case Nil
  then show ?case by simp
next
  case (Cons g fs)
  show ?case
  proof (cases "f \<in> set fs")
    case True
    then show ?thesis using Cons.IH by simp
  next
    case False
    with Cons.prems have "g = f" by simp
    then show ?thesis
      using oneToManyField_emits [OF assms(2-5), of acc]
        fold_oneToManyField_mono [of "oneToManyField ms m f acc" ms m fs]
      by auto
  qed
qed

lemma fold_models_oneToMany_emits:
  assumes "m \<in> set ns" and "f \<in> set (m_fields m)"
    and "f_kind f = ''object''" and "f_isList f"
    and "find (\<lambda>m'. m_name m' = f_type f) ms = Some rm"
    and "reciprocalSingleField rm (m_name m) (f_relationName f) = Some rf"
  shows "\<lparr>otm_many = \<lparr>t_name = m_name rm, t_field = f_name rf\<rparr>,
          otm_one = \<lparr>t_name = m_name m, t_field = f_name f\<rparr>\<rparr>
         \<in> set (fold (\<lambda>model. fold (oneToManyField ms model) (m_fields model)) ns acc)"
  using assms(1)
proof (induction ns arbitrary: acc)
  case Nil
  then show ?case by simp
next
  case (Cons n ns)
  show ?case
  proof (cases "m \<in> set ns")
    case True
    then show ?thesis using Cons.IH by simp
  next
    case False
    with Cons.prems have "n = m" by simp
    then show ?thesis
      using fold_fields_oneToMany_emits [OF assms(2-6), of acc]
        fold_models_oneToMany_mono [of "fold (oneToManyField ms m) (m_fields m) acc" ms ns]
      by auto
  qed
qed

text \<open>Every record of the result comes from a list field with a reciprocal.\<close>

lemma oneToManyField_origin:
  assumes "r \<in> set (oneToManyField ms m f acc)"
  shows "r \<in> set acc \<or>
         (otm_one r = \<lparr>t_name = m_name m, t_field = f_name f\<rparr> \<and>
          \<not> noSingleReciprocal ms m f)"
  using assms
  by (auto simp: oneToManyField_def findModel_def noSingleReciprocal_def
      split: if_splits option.splits)

lemma fold_fields_oneToMany_origin:
  assumes "r \<in> set (fold (oneToManyField ms m) fs acc)"
  shows "r \<in> set acc \<or>
         (\<exists>f\<in>set fs. otm_one r = \<lparr>t_name = m_name m, t_field = f_name f\<rparr> \<and>
            \<not> noSingleReciprocal ms m f)"
  using assms
proof (induction fs arbitrary: acc)
  case Nil
  then show ?case by simp
next
  case (Cons g fs)
  from Cons.prems have "r \<in> set (fold (oneToManyField ms m) fs (oneToManyField ms m g acc))"
    by simp
  from Cons.IH [OF this] show ?case
    using oneToManyField_origin [of r ms m g acc] by auto
qed

lemma fold_models_oneToMany_origin:
  assumes "r \<in> set (fold (\<lambda>model. fold (oneToManyField ms model) (m_fields model)) ns acc)"
  shows "r \<in> set acc \<or>
         (\<exists>m\<in>set ns. \<exists>f\<in>set (m_fields m).
            otm_one r = \<lparr>t_name = m_name m, t_field = f_name f\<rparr> \<and>
            \<not> noSingleReciprocal ms m f)"
  using assms
proof (induction ns arbitrary: acc)
  case Nil
  then show ?case by simp
next
  case (Cons n ns)
  from Cons.prems
  have "r \<in> set (fold (\<lambda>model. fold (oneToManyField ms model) (m_fields model)) ns
                   (fold (oneToManyField ms n) (m_fields n) acc))"
    by simp
  from Cons.IH [OF this] show ?case
    using fold_fields_oneToMany_origin [of r ms n "m_fields n" acc] by auto
qed

text \<open>
  C4, as stated (the record of a list field assigns \<open>one\<close> to the related entity with the
  reciprocal field and \<open>many\<close> to the origin entity with the list field), does not hold: for
  Scenario A the origin is Department with its list field \<open>employees\<close>, the related entity is
  Employee with the reciprocal field \<open>department\<close>, and the record with
  one = Employee.department and many = Department.employees is not in the result.
\<close>

theorem oneToMany_sides_counterexample:
  "\<lparr>otm_many = \<lparr>t_name = ''Department'', t_field = ''employees''\<rparr>,
    otm_one = \<lparr>t_name = ''Employee'', t_field = ''department''\<rparr>\<rparr>
     \<notin> set (manyToOne (getOneToManyRelations (scenarioA (Some ''DepartmentToEmployee''))))"
  by (simp add: one_to_many_defs scenarioA_defs)

text \<open>
  C4, amended. For every field of kind object with isList true, of an origin entity of the
  graph, whose type resolves to a related entity that has a reciprocal non-list object
  field back to the origin with the same relation name, the one-to-many result holds the
  record with one = (the origin entity, the name of the origin list field) and
  many = (the related entity, the name of the reciprocal field).
\<close>

theorem oneToMany_record_sides:
  assumes "m \<in> set (models d)" and "f \<in> set (m_fields m)"
    and "f_kind f = ''object''" and "f_isList f"
    and "findModel (models d) (f_type f) = Some rm"
    and "reciprocalSingleField rm (m_name m) (f_relationName f) = Some rf"
  shows "\<lparr>otm_many = \<lparr>t_name = m_name rm, t_field = f_name rf\<rparr>,
          otm_one = \<lparr>t_name = m_name m, t_field = f_name f\<rparr>\<rparr>
         \<in> set (manyToOne (getOneToManyRelations d))"
  using fold_models_oneToMany_emits [OF assms(1-4) _ assms(6), of "models d" "[]"] assms(5)
  by (simp add: getOneToManyRelations_def findModel_def)

theorem oneToMany_record_sides_witness:
  "departmentA None \<in> set (models (scenarioA None)) \<and>
   objectField ''employees'' ''Employee'' True None \<in> set (m_fields (departmentA None)) \<and>
   findModel (models (scenarioA None)) ''Employee'' = Some (employeeA None) \<and>
   reciprocalSingleField (employeeA None) ''Department'' None =
     Some (objectField ''department'' ''Department'' False None) \<and>
   \<lparr>otm_many = \<lparr>t_name = ''Employee'', t_field = ''department''\<rparr>,
    otm_one = \<lparr>t_name = ''Department'', t_field = ''employees''\<rparr>\<rparr>
     \<in> set (manyToOne (getOneToManyRelations (scenarioA None)))"
proof -
  let ?f = "objectField ''employees'' ''Employee'' True None"
  let ?rf = "objectField ''department'' ''Department'' False None"
  have h1: "departmentA None \<in> set (models (scenarioA None))"
    by (simp add: scenarioA_def)
  have h2: "?f \<in> set (m_fields (departmentA None))"
    by (simp add: departmentA_def)
  have h3: "f_kind ?f = ''object''" and h4: "f_isList ?f"
    by (simp_all add: objectField_def)
  have h5: "findModel (models (scenarioA None)) (f_type ?f) = Some (employeeA None)"
    by (simp add: findModel_def scenarioA_def departmentA_def employeeA_def objectField_def)
  have h6: "reciprocalSingleField (employeeA None) (m_name (departmentA None)) (f_relationName ?f)
            = Some ?rf"
    by (simp add: reciprocalSingleField_def departmentA_def employeeA_def objectField_def
        scalarField_def)
  from oneToMany_record_sides [OF h1 h2 h3 h4 h5 h6] h1 h2 h5 h6 show ?thesis
    by (simp add: departmentA_def employeeA_def objectField_def)
qed

subsection \<open>Scenario A\<close>

text \<open>
  C5. For the graph of Scenario A (Department with the list field \<open>employees\<close>, Employee
  with the singular field \<open>department\<close>, the same relation name on both), the one-to-many
  result holds exactly one record: many = Employee.department, one = Department.employees.
\<close>

theorem scenarioA_oneToMany:
  "getOneToManyRelations (scenarioA rn) =
     \<lparr>manyToOne =
        [\<lparr>otm_many = \<lparr>t_name = ''Employee'', t_field = ''department''\<rparr>,
          otm_one = \<lparr>t_name = ''Department'', t_field = ''employees''\<rparr>\<rparr>]\<rparr>"
  by (simp add: one_to_many_defs scenarioA_defs)

subsection \<open>The one-to-one classifier\<close>

lemma swapSides_swapSides: "swapSides (swapSides r) = r"
  by (cases r) (simp add: swapSides_def)

text \<open>The duplicate test finds the record about to be pushed, or its mirror image.\<close>

lemma oneToOne_duplicate_iff:
  "list_ex
     (\<lambda>rel.
        (t_name (table_one rel) = n1 \<and> t_field (table_one rel) = f1 \<and>
         t_name (table_two rel) = n2 \<and> t_field (table_two rel) = f2) \<or>
        (t_name (table_one rel) = n2 \<and> t_field (table_one rel) = f2 \<and>
         t_name (table_two rel) = n1 \<and> t_field (table_two rel) = f1)) acc
   \<longleftrightarrow>
     \<lparr>table_one = \<lparr>t_name = n1, t_field = f1\<rparr>, table_two = \<lparr>t_name = n2, t_field = f2\<rparr>\<rparr>
       \<in> set acc \<or>
     swapSides
       \<lparr>table_one = \<lparr>t_name = n1, t_field = f1\<rparr>, table_two = \<lparr>t_name = n2, t_field = f2\<rparr>\<rparr>
       \<in> set acc"
  (is "?L \<longleftrightarrow> ?r \<in> set acc \<or> swapSides ?r \<in> set acc")
proof
  assume ?L
  then obtain rel where rel: "rel \<in> set acc" and
    c: "(t_name (table_one rel) = n1 \<and> t_field (table_one rel) = f1 \<and>
         t_name (table_two rel) = n2 \<and> t_field (table_two rel) = f2) \<or>
        (t_name (table_one rel) = n2 \<and> t_field (table_one rel) = f2 \<and>
         t_name (table_two rel) = n1 \<and> t_field (table_two rel) = f1)"
    by (auto simp: list_ex_iff)
  from c show "?r \<in> set acc \<or> swapSides ?r \<in> set acc"
  proof
    assume a: "t_name (table_one rel) = n1 \<and> t_field (table_one rel) = f1 \<and>
         t_name (table_two rel) = n2 \<and> t_field (table_two rel) = f2"
    have "rel = ?r" by (intro one_to_one_eqI table_ref_eqI) (simp_all add: a)
    with rel show ?thesis by simp
  next
    assume a: "t_name (table_one rel) = n2 \<and> t_field (table_one rel) = f2 \<and>
         t_name (table_two rel) = n1 \<and> t_field (table_two rel) = f1"
    have "rel = swapSides ?r" unfolding swapSides_def
      by (intro one_to_one_eqI table_ref_eqI) (simp_all add: a)
    with rel show ?thesis by simp
  qed
next
  assume "?r \<in> set acc \<or> swapSides ?r \<in> set acc"
  then show ?L
  proof
    assume "?r \<in> set acc"
    then show ?L unfolding list_ex_iff by (rule bexI [rotated]) simp
  next
    assume "swapSides ?r \<in> set acc"
    then show ?L unfolding list_ex_iff by (rule bexI [rotated]) (simp add: swapSides_def)
  qed
qed

lemma noMirror_snoc:
  assumes "noMirror acc" and "r \<notin> set acc" and "swapSides r \<notin> set acc"
  shows "noMirror (acc @ [r])"
proof -
  have "swapSides q \<noteq> r" if "q \<in> set acc" for q
  proof
    assume "swapSides q = r"
    then have "swapSides r = q" using swapSides_swapSides [of q] by simp
    with that assms(3) show False by simp
  qed
  with assms show ?thesis
    by (auto simp: noMirror_def)
qed

lemma oneToOneField_noMirror:
  assumes "noMirror acc"
  shows "noMirror (oneToOneField ms m f acc)"
  using assms
  by (auto simp: oneToOneField_def Let_def oneToOne_duplicate_iff intro: noMirror_snoc
      split: option.splits)

lemma fold_oneToOneField_noMirror:
  "noMirror acc \<Longrightarrow> noMirror (fold (oneToOneField ms m) fs acc)"
  by (induction fs arbitrary: acc) (simp_all add: oneToOneField_noMirror)

lemma fold_models_oneToOne_noMirror:
  "noMirror acc \<Longrightarrow>
   noMirror (fold (\<lambda>model. fold (oneToOneField ms model) (m_fields model)) ns acc)"
  by (induction ns arbitrary: acc) (simp_all add: fold_oneToOneField_noMirror)

lemma getOneToOne_noMirror: "noMirror (getOneToOneRelations d)"
  unfolding getOneToOneRelations_def
  by (rule fold_models_oneToOne_noMirror) (simp add: noMirror_def)

lemma oneToOneField_mono: "set acc \<subseteq> set (oneToOneField ms m f acc)"
  by (auto simp: oneToOneField_def Let_def split: option.splits)

lemma fold_oneToOneField_mono: "set acc \<subseteq> set (fold (oneToOneField ms m) fs acc)"
proof (induction fs arbitrary: acc)
  case Nil
  show ?case by simp
next
  case (Cons f fs)
  have "set acc \<subseteq> set (oneToOneField ms m f acc)" by (rule oneToOneField_mono)
  also have "\<dots> \<subseteq> set (fold (oneToOneField ms m) fs (oneToOneField ms m f acc))"
    by (rule Cons.IH)
  finally show ?case by simp
qed

lemma fold_models_oneToOne_mono:
  "set acc \<subseteq> set (fold (\<lambda>model. fold (oneToOneField ms model) (m_fields model)) ns acc)"
proof (induction ns arbitrary: acc)
  case Nil
  show ?case by simp
next
  case (Cons n ns)
  have "set acc \<subseteq> set (fold (oneToOneField ms n) (m_fields n) acc)"
    by (rule fold_oneToOneField_mono)
  also have "\<dots> \<subseteq> set (fold (\<lambda>model. fold (oneToOneField ms model) (m_fields model)) ns
                          (fold (oneToOneField ms n) (m_fields n) acc))"
    by (rule Cons.IH)
  finally show ?case by simp
qed

lemma oneToOneField_emits:
  assumes "f_kind f = ''object''" and "\<not> f_isList f"
    and "find (\<lambda>m'. m_name m' = f_type f) ms = Some rm"
    and "reciprocalSingleField rm (m_name m) (f_relationName f) = Some rf"
    and "r = \<lparr>table_one = \<lparr>t_name = m_name m, t_field = f_name f\<rparr>,
              table_two = \<lparr>t_name = f_type f, t_field = f_name rf\<rparr>\<rparr>"
  shows "r \<in> set (oneToOneField ms m f acc) \<or> swapSides r \<in> set (oneToOneField ms m f acc)"
  using assms
  by (auto simp: oneToOneField_def Let_def oneToOne_duplicate_iff)

lemma fold_fields_oneToOne_emits:
  assumes "f \<in> set fs"
    and "f_kind f = ''object''" and "\<not> f_isList f"
    and "find (\<lambda>m'. m_name m' = f_type f) ms = Some rm"
    and "reciprocalSingleField rm (m_name m) (f_relationName f) = Some rf"
    and "r = \<lparr>table_one = \<lparr>t_name = m_name m, t_field = f_name f\<rparr>,
              table_two = \<lparr>t_name = f_type f, t_field = f_name rf\<rparr>\<rparr>"
  shows "r \<in> set (fold (oneToOneField ms m) fs acc) \<or>
         swapSides r \<in> set (fold (oneToOneField ms m) fs acc)"
  using assms(1)
proof (induction fs arbitrary: acc)
  case Nil
  then show ?case by simp
next
  case (Cons g fs)
  show ?case
  proof (cases "f \<in> set fs")
    case True
    then show ?thesis using Cons.IH by simp
  next
    case False
    with Cons.prems have "g = f" by simp
    then show ?thesis
      using oneToOneField_emits [OF assms(2-6), of acc]
        fold_oneToOneField_mono [of "oneToOneField ms m f acc" ms m fs]
      by auto
  qed
qed

lemma fold_models_oneToOne_emits:
  assumes "m \<in> set ns" and "f \<in> set (m_fields m)"
    and "f_kind f = ''object''" and "\<not> f_isList f"
    and "find (\<lambda>m'. m_name m' = f_type f) ms = Some rm"
    and "reciprocalSingleField rm (m_name m) (f_relationName f) = Some rf"
    and "r = \<lparr>table_one = \<lparr>t_name = m_name m, t_field = f_name f\<rparr>,
              table_two = \<lparr>t_name = f_type f, t_field = f_name rf\<rparr>\<rparr>"
  shows "r \<in> set (fold (\<lambda>model. fold (oneToOneField ms model) (m_fields model)) ns acc) \<or>
         swapSides r \<in> set (fold (\<lambda>model. fold (oneToOneField ms model) (m_fields model)) ns acc)"
  using assms(1)
proof (induction ns arbitrary: acc)
  case Nil
  then show ?case by simp
next
  case (Cons n ns)
  show ?case
  proof (cases "m \<in> set ns")
    case True
    then show ?thesis using Cons.IH by simp
  next
    case False
    with Cons.prems have "n = m" by simp
    then show ?thesis
      using fold_fields_oneToOne_emits [OF assms(2-7), of acc]
        fold_models_oneToOne_mono [of "fold (oneToOneField ms m) (m_fields m) acc" ms ns]
      by auto
  qed
qed

lemma oneToOneField_origin:
  assumes "r \<in> set (oneToOneField ms m f acc)"
  shows "r \<in> set acc \<or>
         (table_one r = \<lparr>t_name = m_name m, t_field = f_name f\<rparr> \<and>
          \<not> noSingleReciprocal ms m f)"
  using assms
  by (auto simp: oneToOneField_def Let_def findModel_def noSingleReciprocal_def
      split: if_splits option.splits)

lemma fold_fields_oneToOne_origin:
  assumes "r \<in> set (fold (oneToOneField ms m) fs acc)"
  shows "r \<in> set acc \<or>
         (\<exists>f\<in>set fs. table_one r = \<lparr>t_name = m_name m, t_field = f_name f\<rparr> \<and>
            \<not> noSingleReciprocal ms m f)"
  using assms
proof (induction fs arbitrary: acc)
  case Nil
  then show ?case by simp
next
  case (Cons g fs)
  from Cons.prems have "r \<in> set (fold (oneToOneField ms m) fs (oneToOneField ms m g acc))"
    by simp
  from Cons.IH [OF this] show ?case
    using oneToOneField_origin [of r ms m g acc] by auto
qed

lemma fold_models_oneToOne_origin:
  assumes "r \<in> set (fold (\<lambda>model. fold (oneToOneField ms model) (m_fields model)) ns acc)"
  shows "r \<in> set acc \<or>
         (\<exists>m\<in>set ns. \<exists>f\<in>set (m_fields m).
            table_one r = \<lparr>t_name = m_name m, t_field = f_name f\<rparr> \<and>
            \<not> noSingleReciprocal ms m f)"
  using assms
proof (induction ns arbitrary: acc)
  case Nil
  then show ?case by simp
next
  case (Cons n ns)
  from Cons.prems
  have "r \<in> set (fold (\<lambda>model. fold (oneToOneField ms model) (m_fields model)) ns
                   (fold (oneToOneField ms n) (m_fields n) acc))"
    by simp
  from Cons.IH [OF this] show ?case
    using fold_fields_oneToOne_origin [of r ms n "m_fields n" acc] by auto
qed

text \<open>
  C6. The one-to-one result never holds two records that are equal up to swapping sides:
  two records at different positions are neither equal nor mirror images of each other.
  (A single record can be its own mirror image, when a field of a self-relation is found as
  its own reciprocal; it occurs once.)
\<close>

theorem oneToOne_no_mirrored_pair:
  assumes "i < length (getOneToOneRelations d)" and "j < length (getOneToOneRelations d)"
    and "i \<noteq> j"
  shows "getOneToOneRelations d ! i \<noteq> getOneToOneRelations d ! j \<and>
         getOneToOneRelations d ! i \<noteq> swapSides (getOneToOneRelations d ! j)"
proof -
  let ?out = "getOneToOneRelations d"
  have nm: "noMirror ?out" by (rule getOneToOne_noMirror)
  then have d: "distinct ?out" by (simp add: noMirror_def)
  with assms have ne: "?out ! i \<noteq> ?out ! j" by (simp add: nth_eq_iff_index_eq)
  have "?out ! i \<noteq> swapSides (?out ! j)"
  proof
    assume e: "?out ! i = swapSides (?out ! j)"
    from assms(1,2) have "?out ! j \<in> set ?out" "swapSides (?out ! j) \<in> set ?out"
      using e [symmetric] by (auto simp del: nth_mem intro: nth_mem)
    with nm have "swapSides (?out ! j) = ?out ! j" by (auto simp: noMirror_def)
    with e ne show False by simp
  qed
  with ne show ?thesis by simp
qed

theorem oneToOne_no_mirrored_pair_witness:
  "getOneToOneRelations successorSchema =
     [\<lparr>table_one = \<lparr>t_name = ''User'', t_field = ''successor''\<rparr>,
       table_two = \<lparr>t_name = ''User'', t_field = ''successor''\<rparr>\<rparr>,
      \<lparr>table_one = \<lparr>t_name = ''User'', t_field = ''predecessor''\<rparr>,
       table_two = \<lparr>t_name = ''User'', t_field = ''successor''\<rparr>\<rparr>] \<and>
   (0::nat) < length (getOneToOneRelations successorSchema) \<and>
   (1::nat) < length (getOneToOneRelations successorSchema) \<and>
   (0::nat) \<noteq> 1 \<and>
   getOneToOneRelations successorSchema ! 0 \<noteq> getOneToOneRelations successorSchema ! 1 \<and>
   getOneToOneRelations successorSchema ! 0 \<noteq>
     swapSides (getOneToOneRelations successorSchema ! 1)"
proof -
  have out: "getOneToOneRelations successorSchema =
     [\<lparr>table_one = \<lparr>t_name = ''User'', t_field = ''successor''\<rparr>,
       table_two = \<lparr>t_name = ''User'', t_field = ''successor''\<rparr>\<rparr>,
      \<lparr>table_one = \<lparr>t_name = ''User'', t_field = ''predecessor''\<rparr>,
       table_two = \<lparr>t_name = ''User'', t_field = ''successor''\<rparr>\<rparr>]"
    by (simp add: one_to_one_defs successor_defs)
  have h1: "0 < length (getOneToOneRelations successorSchema)"
    and h2: "1 < length (getOneToOneRelations successorSchema)"
    by (simp_all add: out)
  have h3: "(0::nat) \<noteq> 1" by simp
  from oneToOne_no_mirrored_pair [OF h1 h2 h3] out h1 h2 show ?thesis by simp
qed

subsection \<open>Candidates that are dropped\<close>

lemma unique_field:
  assumes "distinct (map m_name ms)" and "distinct (map f_name (m_fields m))"
    and "m \<in> set ms" and "f \<in> set (m_fields m)"
    and "m' \<in> set ms" and "f' \<in> set (m_fields m')"
    and "\<lparr>t_name = m_name m', t_field = f_name f'\<rparr> = \<lparr>t_name = m_name m, t_field = f_name f\<rparr>"
  shows "m' = m \<and> f' = f"
proof -
  from assms(7) have n: "m_name m' = m_name m" "f_name f' = f_name f" by simp_all
  from assms(1) have "inj_on m_name (set ms)" by (simp add: distinct_map)
  with assms(3,5) n(1) have m: "m' = m" by (auto dest: inj_onD)
  from assms(2) have "inj_on f_name (set (m_fields m))" by (simp add: distinct_map)
  with assms(4,6) n(2) m have "f' = f" by (auto dest: inj_onD)
  with m show ?thesis by simp
qed

text \<open>
  C7. For every entity of the graph with exactly two object fields where at least one of
  the two references has no reciprocal list-typed object field typed with that entity's
  name: the many-to-many callback returns early for it, so that (model names being
  distinct) no many-to-many record carries its name as the junction name; and each of its
  object fields that has a reciprocal singular field is classified by the ordinary
  classifiers: a list field has its record in the one-to-many result, a singular field has
  its record, or the mirror image of it, in the one-to-one result.
\<close>

theorem non_junction_two_object_fields:
  assumes "m \<in> set (models d)" and "objectFields m = [f1, f2]"
    and "noListReciprocal (models d) m f1 \<or> noListReciprocal (models d) m f2"
  shows "junctionEntry (models d) m = None \<and>
         (\<forall>rels. distinct (map m_name (models d)) \<longrightarrow> getManyToManyRelations d = Inr rels \<longrightarrow>
            (\<forall>r\<in>set rels. jt_name (junctionTable r) \<noteq> m_name m)) \<and>
         (\<forall>f\<in>set (m_fields m). \<forall>rm rf.
            f_kind f = ''object'' \<longrightarrow>
            findModel (models d) (f_type f) = Some rm \<longrightarrow>
            reciprocalSingleField rm (m_name m) (f_relationName f) = Some rf \<longrightarrow>
            (if f_isList f
             then \<lparr>otm_many = \<lparr>t_name = m_name rm, t_field = f_name rf\<rparr>,
                   otm_one = \<lparr>t_name = m_name m, t_field = f_name f\<rparr>\<rparr>
                  \<in> set (manyToOne (getOneToManyRelations d))
             else \<lparr>table_one = \<lparr>t_name = m_name m, t_field = f_name f\<rparr>,
                   table_two = \<lparr>t_name = f_type f, t_field = f_name rf\<rparr>\<rparr>
                  \<in> set (getOneToOneRelations d) \<or>
                  \<lparr>table_one = \<lparr>t_name = f_type f, t_field = f_name rf\<rparr>,
                   table_two = \<lparr>t_name = m_name m, t_field = f_name f\<rparr>\<rparr>
                  \<in> set (getOneToOneRelations d)))"
proof (intro conjI allI ballI impI)
  let ?ms = "models d"
  show none: "junctionEntry ?ms m = None"
    using assms(2,3) junctionEntry_unresolved [of f1 m ?ms] junctionEntry_unresolved [of f2 m ?ms]
    by auto
  show "jt_name (junctionTable r) \<noteq> m_name m"
    if dist: "distinct (map m_name ?ms)" and rels: "getManyToManyRelations d = Inr rels"
      and r: "r \<in> set rels" for rels r
  proof -
    have eq: "rels = junctionRecords ?ms (junctionModels ?ms)"
      using rels forEachJunction_Inr [of ?ms "junctionModels ?ms" "[]" rels]
      by (simp add: getManyToManyRelations_def)
    have jm: "m \<in> set (junctionModels ?ms)"
      using assms(1,2) by (simp add: junctionModels_def)
    have "filter (\<lambda>x. jt_name (junctionTable x) = m_name m) rels = []"
      unfolding eq using distinct_junctionModels [OF dist] jm none
      by (rule junctionRecords_filter_none)
    with r show ?thesis by (simp add: filter_empty_conv)
  qed
  show "if f_isList f
        then \<lparr>otm_many = \<lparr>t_name = m_name rm, t_field = f_name rf\<rparr>,
              otm_one = \<lparr>t_name = m_name m, t_field = f_name f\<rparr>\<rparr>
             \<in> set (manyToOne (getOneToManyRelations d))
        else \<lparr>table_one = \<lparr>t_name = m_name m, t_field = f_name f\<rparr>,
              table_two = \<lparr>t_name = f_type f, t_field = f_name rf\<rparr>\<rparr>
             \<in> set (getOneToOneRelations d) \<or>
             \<lparr>table_one = \<lparr>t_name = f_type f, t_field = f_name rf\<rparr>,
              table_two = \<lparr>t_name = m_name m, t_field = f_name f\<rparr>\<rparr>
             \<in> set (getOneToOneRelations d)"
    if f: "f \<in> set (m_fields m)" "f_kind f = ''object''"
      "findModel ?ms (f_type f) = Some rm"
      "reciprocalSingleField rm (m_name m) (f_relationName f) = Some rf" for f rm rf
  proof (cases "f_isList f")
    case True
    from f(3) have fm: "find (\<lambda>m'. m_name m' = f_type f) ?ms = Some rm"
      by (simp add: findModel_def)
    show ?thesis
      using True fold_models_oneToMany_emits [OF assms(1) f(1,2) True fm f(4), of "[]"]
      by (simp add: getOneToManyRelations_def)
  next
    case False
    from f(3) have fm: "find (\<lambda>m'. m_name m' = f_type f) ?ms = Some rm"
      by (simp add: findModel_def)
    show ?thesis
      using False fold_models_oneToOne_emits [OF assms(1) f(1,2) False fm f(4) refl, of "[]"]
      by (simp add: getOneToOneRelations_def swapSides_def)
  qed
qed

theorem non_junction_two_object_fields_witness:
  "EmployeeOnly \<in> set (models boundarySchema) \<and>
   objectFields EmployeeOnly =
     [objectField ''department'' ''Department'' False (Some ''DepartmentToEmployee''),
      objectField ''profile'' ''Profile'' False (Some ''EmployeeProfile'')] \<and>
   noListReciprocal (models boundarySchema) EmployeeOnly
     (objectField ''profile'' ''Profile'' False (Some ''EmployeeProfile'')) \<and>
   distinct (map m_name (models boundarySchema)) \<and>
   junctionEntry (models boundarySchema) EmployeeOnly = None \<and>
   getManyToManyRelations boundarySchema = Inr [] \<and>
   findModel (models boundarySchema) ''Profile'' = Some Profile \<and>
   reciprocalSingleField Profile ''Employee'' (Some ''EmployeeProfile'') =
     Some (objectField ''employee'' ''Employee'' False (Some ''EmployeeProfile'')) \<and>
   (\<lparr>table_one = \<lparr>t_name = ''Employee'', t_field = ''profile''\<rparr>,
     table_two = \<lparr>t_name = ''Profile'', t_field = ''employee''\<rparr>\<rparr>
      \<in> set (getOneToOneRelations boundarySchema) \<or>
    \<lparr>table_one = \<lparr>t_name = ''Profile'', t_field = ''employee''\<rparr>,
     table_two = \<lparr>t_name = ''Employee'', t_field = ''profile''\<rparr>\<rparr>
      \<in> set (getOneToOneRelations boundarySchema))"
proof -
  let ?ms = "models boundarySchema"
  let ?f1 = "objectField ''department'' ''Department'' False (Some ''DepartmentToEmployee'')"
  let ?f2 = "objectField ''profile'' ''Profile'' False (Some ''EmployeeProfile'')"
  let ?rf = "objectField ''employee'' ''Employee'' False (Some ''EmployeeProfile'')"
  have h1: "EmployeeOnly \<in> set ?ms"
    by (simp add: boundarySchema_def)
  have h2: "objectFields EmployeeOnly = [?f1, ?f2]"
    by (simp add: objectFields_def boundary_defs)
  have nl: "noListReciprocal ?ms EmployeeOnly ?f2"
    by (simp add: noListReciprocal_def findModel_def reciprocalListField_def boundary_defs)
  then have h3: "noListReciprocal ?ms EmployeeOnly ?f1 \<or> noListReciprocal ?ms EmployeeOnly ?f2"
    by simp
  have d: "distinct (map m_name ?ms)"
    by (simp add: boundary_defs)
  have mm: "getManyToManyRelations boundarySchema = Inr []"
    by (simp add: many_to_many_defs boundary_defs)
  have f: "?f2 \<in> set (m_fields EmployeeOnly)" "f_kind ?f2 = ''object''" "\<not> f_isList ?f2"
    by (simp_all add: boundary_defs)
  have fm: "findModel ?ms (f_type ?f2) = Some Profile"
    by (simp add: findModel_def boundary_defs)
  have rs: "reciprocalSingleField Profile (m_name EmployeeOnly) (f_relationName ?f2) = Some ?rf"
    by (simp add: reciprocalSingleField_def boundary_defs)
  note c = non_junction_two_object_fields [OF h1 h2 h3]
  from c have c1: "junctionEntry ?ms EmployeeOnly = None" by blast
  from c f fm rs
  have c3: "\<lparr>table_one = \<lparr>t_name = m_name EmployeeOnly, t_field = f_name ?f2\<rparr>,
             table_two = \<lparr>t_name = f_type ?f2, t_field = f_name ?rf\<rparr>\<rparr>
            \<in> set (getOneToOneRelations boundarySchema) \<or>
            \<lparr>table_one = \<lparr>t_name = f_type ?f2, t_field = f_name ?rf\<rparr>,
             table_two = \<lparr>t_name = m_name EmployeeOnly, t_field = f_name ?f2\<rparr>\<rparr>
            \<in> set (getOneToOneRelations boundarySchema)"
    by (auto split: if_splits)
  have n: "m_name EmployeeOnly = ''Employee''" "f_name ?f2 = ''profile''"
    "f_type ?f2 = ''Profile''" "f_name ?rf = ''employee''"
    "f_relationName ?f2 = Some ''EmployeeProfile''"
    by (simp_all add: EmployeeOnly_def objectField_def)
  from h1 h2 nl d c1 mm fm rs c3 show ?thesis
    unfolding n by blast
qed

text \<open>
  C9. For every object field whose type matches no model name, and for every object field
  whose related model has no reciprocal field of the shape the classifier looks for, the
  classifiers emit nothing for that field and raise nothing: the many-to-many callback
  returns early for the model that holds the field and the loop goes on with the records
  collected so far; the bodies of the one-to-many and one-to-one loops leave the list
  collected so far as it is; and (model names and the field names of the model being
  distinct) no record of the one-to-many or one-to-one result has that field as its origin.
\<close>

theorem dropped_candidates:
  assumes "m \<in> set (models d)" and "f \<in> set (m_fields m)" and "f_kind f = ''object''"
  shows "(noListReciprocal (models d) m f \<longrightarrow>
            junctionEntry (models d) m = None \<and>
            (\<forall>js acc. forEachJunction (models d) (m # js) acc =
                        forEachJunction (models d) js acc)) \<and>
         (noSingleReciprocal (models d) m f \<longrightarrow>
            (\<forall>acc. oneToManyField (models d) m f acc = acc) \<and>
            (\<forall>acc. oneToOneField (models d) m f acc = acc) \<and>
            (distinct (map m_name (models d)) \<and> distinct (map f_name (m_fields m)) \<longrightarrow>
               (\<forall>r\<in>set (manyToOne (getOneToManyRelations d)).
                  otm_one r \<noteq> \<lparr>t_name = m_name m, t_field = f_name f\<rparr>) \<and>
               (\<forall>r\<in>set (getOneToOneRelations d).
                  table_one r \<noteq> \<lparr>t_name = m_name m, t_field = f_name f\<rparr>)))"
proof (intro conjI impI)
  let ?ms = "models d"
  assume nl: "noListReciprocal ?ms m f"
  have "f \<in> set (objectFields m)"
    using assms(2,3) by (simp add: objectFields_def)
  then show none: "junctionEntry ?ms m = None"
    using nl by (rule junctionEntry_unresolved)
  then show "\<forall>js acc. forEachJunction ?ms (m # js) acc = forEachJunction ?ms js acc"
    by simp
next
  let ?ms = "models d"
  assume ns: "noSingleReciprocal ?ms m f"
  show "\<forall>acc. oneToManyField ?ms m f acc = acc"
    using ns
    by (auto simp: noSingleReciprocal_def oneToManyField_def findModel_def split: option.splits)
  show "\<forall>acc. oneToOneField ?ms m f acc = acc"
    using ns
    by (auto simp: noSingleReciprocal_def oneToOneField_def Let_def findModel_def
        split: option.splits)
next
  let ?ms = "models d"
  assume ns: "noSingleReciprocal ?ms m f"
    and dist: "distinct (map m_name ?ms) \<and> distinct (map f_name (m_fields m))"
  show "\<forall>r\<in>set (manyToOne (getOneToManyRelations d)).
          otm_one r \<noteq> \<lparr>t_name = m_name m, t_field = f_name f\<rparr>"
  proof (intro ballI notI)
    fix r
    assume r: "r \<in> set (manyToOne (getOneToManyRelations d))"
      and o: "otm_one r = \<lparr>t_name = m_name m, t_field = f_name f\<rparr>"
    from r obtain m' f' where o': "m' \<in> set ?ms" "f' \<in> set (m_fields m')"
      "otm_one r = \<lparr>t_name = m_name m', t_field = f_name f'\<rparr>"
      "\<not> noSingleReciprocal ?ms m' f'"
      using fold_models_oneToMany_origin [of r ?ms ?ms "[]"]
      by (auto simp: getOneToManyRelations_def)
    from o o'(3) have "\<lparr>t_name = m_name m', t_field = f_name f'\<rparr> =
        \<lparr>t_name = m_name m, t_field = f_name f\<rparr>" by simp
    with dist assms(1,2) o'(1,2) have "m' = m \<and> f' = f"
      by (intro unique_field [of ?ms]) simp_all
    with o'(4) ns show False by simp
  qed
  show "\<forall>r\<in>set (getOneToOneRelations d).
          table_one r \<noteq> \<lparr>t_name = m_name m, t_field = f_name f\<rparr>"
  proof (intro ballI notI)
    fix r
    assume r: "r \<in> set (getOneToOneRelations d)"
      and o: "table_one r = \<lparr>t_name = m_name m, t_field = f_name f\<rparr>"
    from r obtain m' f' where o': "m' \<in> set ?ms" "f' \<in> set (m_fields m')"
      "table_one r = \<lparr>t_name = m_name m', t_field = f_name f'\<rparr>"
      "\<not> noSingleReciprocal ?ms m' f'"
      using fold_models_oneToOne_origin [of r ?ms ?ms "[]"]
      by (auto simp: getOneToOneRelations_def)
    from o o'(3) have "\<lparr>t_name = m_name m', t_field = f_name f'\<rparr> =
        \<lparr>t_name = m_name m, t_field = f_name f\<rparr>" by simp
    with dist assms(1,2) o'(1,2) have "m' = m \<and> f' = f"
      by (intro unique_field [of ?ms]) simp_all
    with o'(4) ns show False by simp
  qed
qed

theorem dropped_candidates_witness:
  "Order \<in> set (models danglingSchema) \<and>
   objectField ''customer'' ''Customer'' False (Some ''CustomerToOrder'') \<in> set (m_fields Order) \<and>
   findModel (models danglingSchema) ''Customer'' = None \<and>
   noListReciprocal (models danglingSchema) Order
     (objectField ''customer'' ''Customer'' False (Some ''CustomerToOrder'')) \<and>
   noSingleReciprocal (models danglingSchema) Order
     (objectField ''customer'' ''Customer'' False (Some ''CustomerToOrder'')) \<and>
   junctionEntry (models danglingSchema) Order = None \<and>
   forEachJunction (models danglingSchema) [Order] [] = Inr [] \<and>
   oneToManyField (models danglingSchema) Order
     (objectField ''customer'' ''Customer'' False (Some ''CustomerToOrder'')) [] = [] \<and>
   oneToOneField (models danglingSchema) Order
     (objectField ''customer'' ''Customer'' False (Some ''CustomerToOrder'')) [] = [] \<and>
   Employee \<in> set (models readmeSchema) \<and>
   objectField ''department'' ''Department'' False (Some ''DepartmentToEmployee'')
     \<in> set (m_fields Employee) \<and>
   findModel (models readmeSchema) ''Department'' = Some Department \<and>
   reciprocalSingleField Department ''Employee'' (Some ''DepartmentToEmployee'') = None \<and>
   distinct (map m_name (models readmeSchema)) \<and>
   distinct (map f_name (m_fields Employee)) \<and>
   \<lparr>t_name = ''Employee'', t_field = ''department''\<rparr>
     \<notin> set (map otm_one (manyToOne (getOneToManyRelations readmeSchema))) \<and>
   \<lparr>t_name = ''Employee'', t_field = ''department''\<rparr>
     \<notin> set (map table_one (getOneToOneRelations readmeSchema))"
proof -
  let ?c = "objectField ''customer'' ''Customer'' False (Some ''CustomerToOrder'')"
  let ?dp = "objectField ''department'' ''Department'' False (Some ''DepartmentToEmployee'')"
  have a1: "Order \<in> set (models danglingSchema)"
    by (simp add: danglingSchema_def)
  have a2: "?c \<in> set (m_fields Order)"
    by (simp add: Order_def)
  have a3: "f_kind ?c = ''object''"
    by (simp add: objectField_def)
  have a4: "findModel (models danglingSchema) ''Customer'' = None"
    by (simp add: findModel_def field_defs Order_def danglingSchema_def)
  then have a5: "noListReciprocal (models danglingSchema) Order ?c"
    and a6: "noSingleReciprocal (models danglingSchema) Order ?c"
    by (simp_all add: noListReciprocal_def noSingleReciprocal_def objectField_def)
  have b1: "Employee \<in> set (models readmeSchema)"
    by (simp add: readmeSchema_def)
  have b2: "?dp \<in> set (m_fields Employee)"
    by (simp add: Employee_def)
  have b3: "f_kind ?dp = ''object''"
    by (simp add: objectField_def)
  have b4: "findModel (models readmeSchema) ''Department'' = Some Department"
    by (simp add: findModel_def readme_defs)
  have b5: "reciprocalSingleField Department ''Employee'' (Some ''DepartmentToEmployee'') = None"
    by (simp add: reciprocalSingleField_def readme_defs)
  have b6: "noSingleReciprocal (models readmeSchema) Employee ?dp"
    using b4 b5 by (simp add: noSingleReciprocal_def objectField_def Employee_def)
  have b7: "distinct (map m_name (models readmeSchema))"
    by (simp add: readme_defs)
  have b8: "distinct (map f_name (m_fields Employee))"
    by (simp add: readme_defs)
  have n: "m_name Employee = ''Employee''" "f_name ?dp = ''department''"
    by (simp_all add: Employee_def objectField_def)
  from dropped_candidates [OF a1 a2 a3] a5 a6
  have c1: "junctionEntry (models danglingSchema) Order = None"
    and c2: "forEachJunction (models danglingSchema) [Order] [] = Inr []"
    and c3: "oneToManyField (models danglingSchema) Order ?c [] = []"
    and c4: "oneToOneField (models danglingSchema) Order ?c [] = []"
    by simp_all
  from dropped_candidates [OF b1 b2 b3] b6 b7 b8
  have c5: "\<lparr>t_name = ''Employee'', t_field = ''department''\<rparr>
              \<notin> set (map otm_one (manyToOne (getOneToManyRelations readmeSchema)))"
    and c6: "\<lparr>t_name = ''Employee'', t_field = ''department''\<rparr>
              \<notin> set (map table_one (getOneToOneRelations readmeSchema))"
    unfolding n by auto
  from a1 a2 a4 a5 a6 c1 c2 c3 c4 b1 b2 b4 b5 b7 b8 c5 c6 show ?thesis
    by blast
qed

subsection \<open>Junction tables in the one-to-many and one-to-one results\<close>

lemma relationsPaired_field:
  "relationsPaired ms \<Longrightarrow> m \<in> set ms \<Longrightarrow> f \<in> set (objectFields m) \<Longrightarrow>
   length (oppositeFields ms m f) = 1"
  by (auto simp: relationsPaired_def list_all_iff)

lemma findModel_Some_name: "findModel ms n = Some m \<Longrightarrow> m \<in> set ms \<and> m_name m = n"
  by (auto simp: findModel_def find_Some_iff)

lemma same_name_same_model:
  assumes "distinct (map m_name ms)" and "m \<in> set ms" and "m' \<in> set ms"
    and "m_name m' = m_name m"
  shows "m' = m"
proof -
  from assms(1) have "inj_on m_name (set ms)" by (simp add: distinct_map)
  with assms(2-4) show ?thesis by (auto dest: inj_onD)
qed

lemma findModel_distinct:
  assumes "distinct (map m_name ms)" and "m \<in> set ms"
  shows "findModel ms (m_name m) = Some m"
proof -
  from assms(2) have "\<exists>x\<in>set ms. m_name x = m_name m" by blast
  then obtain m' where m': "findModel ms (m_name m) = Some m'"
    unfolding findModel_def by (cases "find (\<lambda>x. m_name x = m_name m) ms") (auto simp: find_None_iff)
  then have "m' \<in> set ms" "m_name m' = m_name m"
    by (simp_all add: findModel_Some_name)
  with assms have "m' = m" by (intro same_name_same_model)
  with m' show ?thesis by simp
qed

lemma oppositeFields_single:
  assumes "length (oppositeFields ms m f) = 1"
  obtains rm g where "findModel ms (f_type f) = Some rm" and "oppositeFields ms m f = [g]"
    and "g \<in> set (m_fields rm)" and "f_kind g = ''object''" and "f_type g = m_name m"
    and "f_relationName g = f_relationName f"
proof -
  from assms obtain g where g: "oppositeFields ms m f = [g]"
    by (cases "oppositeFields ms m f") auto
  then obtain rm where rm: "findModel ms (f_type f) = Some rm"
    by (cases "findModel ms (f_type f)") (auto simp: oppositeFields_def)
  from g have "g \<in> set (oppositeFields ms m f)" by simp
  with rm have "g \<in> set (m_fields rm)" "f_kind g = ''object''" "f_type g = m_name m"
    "f_relationName g = f_relationName f"
    by (auto simp: oppositeFields_def)
  with rm g that show ?thesis by blast
qed

text \<open>In a paired graph a junction table is referenced through list fields only.\<close>

lemma junction_side_list:
  assumes dist: "distinct (map m_name ms)" and paired: "relationsPaired ms"
    and j: "j \<in> set ms" and obj: "set (objectFields j) = {fa, fo}"
    and fa: "findModel ms (f_type fa) = Some A"
    and ca: "reciprocalListField A (m_name j) = Some ca"
    and fo: "f_type fo \<noteq> f_type fa"
    and nj: "m_name A \<noteq> m_name j"
    and g: "g \<in> set (m_fields A)" "f_kind g = ''object''" "f_type g = m_name j"
  shows "f_isList g"
proof -
  have A: "A \<in> set ms" "m_name A = f_type fa"
    using fa by (simp_all add: findModel_Some_name)
  have fj: "findModel ms (m_name j) = Some j"
    using dist j by (rule findModel_distinct)
  have ca': "ca \<in> set (m_fields A)" "f_kind ca = ''object''" "f_type ca = m_name j" "f_isList ca"
    using ca by (auto simp: reciprocalListField_def find_Some_iff)
  have bk: "f_relationName h = f_relationName fa"
    if h: "h \<in> set (m_fields A)" "f_kind h = ''object''" "f_type h = m_name j" for h
  proof -
    from h have "h \<in> set (objectFields A)" by (simp add: objectFields_def)
    with paired A(1) have "length (oppositeFields ms A h) = 1"
      by (auto dest: relationsPaired_field)
    then obtain rm h' where o: "findModel ms (f_type h) = Some rm"
      "h' \<in> set (m_fields rm)" "f_kind h' = ''object''" "f_type h' = m_name A"
      "f_relationName h' = f_relationName h"
      by (rule oppositeFields_single)
    from o(1) h(3) fj have "rm = j" by simp
    with o(2,3) have "h' \<in> set (objectFields j)" by (simp add: objectFields_def)
    with obj have "h' = fa \<or> h' = fo" by auto
    with o(4) A(2) fo have "h' = fa" by auto
    with o(5) show ?thesis by simp
  qed
  have faj: "fa \<in> set (objectFields j)" using obj by simp
  with paired j have "length (oppositeFields ms j fa) = 1"
    by (auto dest: relationsPaired_field)
  then obtain x where x: "oppositeFields ms j fa = [x]"
    by (cases "oppositeFields ms j fa") auto
  have mem: "h \<in> set (oppositeFields ms j fa)"
    if h: "h \<in> set (m_fields A)" "f_kind h = ''object''" "f_type h = m_name j" for h
    using h bk [OF h] fa nj by (simp add: oppositeFields_def)
  from mem [OF g] mem [OF ca'(1-3)] x have "g = ca" by simp
  with ca'(4) show ?thesis by simp
qed


lemma noSingleReciprocal_field:
  assumes "\<not> noSingleReciprocal ms m f"
  obtains rm rf where "rm \<in> set ms" and "rf \<in> set (m_fields rm)" and "f_kind rf = ''object''"
    and "\<not> f_isList rf" and "f_type rf = m_name m"
proof -
  from assms obtain rm rf where rm: "findModel ms (f_type f) = Some rm"
    and rf: "reciprocalSingleField rm (m_name m) (f_relationName f) = Some rf"
    by (auto simp: noSingleReciprocal_def split: option.splits)
  from rm have "rm \<in> set ms" by (simp add: findModel_Some_name)
  moreover from rf have "rf \<in> set (m_fields rm)" "f_kind rf = ''object''" "\<not> f_isList rf"
    "f_type rf = m_name m"
    by (auto simp: reciprocalSingleField_def find_Some_iff)
  ultimately show ?thesis using that by blast
qed

lemma oneToOneField_sides:
  assumes "r \<in> set (oneToOneField ms m f acc)"
  shows "r \<in> set acc \<or>
         (t_name (table_one r) = m_name m \<and> t_name (table_two r) = f_type f \<and>
          f_kind f = ''object'' \<and> \<not> f_isList f \<and> \<not> noSingleReciprocal ms m f)"
  using assms
  by (auto simp: oneToOneField_def Let_def findModel_def noSingleReciprocal_def
      split: if_splits option.splits)

lemma fold_fields_oneToOne_sides:
  assumes "r \<in> set (fold (oneToOneField ms m) fs acc)"
  shows "r \<in> set acc \<or>
         (\<exists>f\<in>set fs. t_name (table_one r) = m_name m \<and> t_name (table_two r) = f_type f \<and>
            f_kind f = ''object'' \<and> \<not> f_isList f \<and> \<not> noSingleReciprocal ms m f)"
  using assms
proof (induction fs arbitrary: acc)
  case Nil
  then show ?case by simp
next
  case (Cons g fs)
  from Cons.prems have "r \<in> set (fold (oneToOneField ms m) fs (oneToOneField ms m g acc))"
    by simp
  from Cons.IH [OF this] show ?case
    using oneToOneField_sides [of r ms m g acc] by auto
qed

lemma fold_models_oneToOne_sides:
  assumes "r \<in> set (fold (\<lambda>model. fold (oneToOneField ms model) (m_fields model)) ns acc)"
  shows "r \<in> set acc \<or>
         (\<exists>m\<in>set ns. \<exists>f\<in>set (m_fields m).
            t_name (table_one r) = m_name m \<and> t_name (table_two r) = f_type f \<and>
            f_kind f = ''object'' \<and> \<not> f_isList f \<and> \<not> noSingleReciprocal ms m f)"
  using assms
proof (induction ns arbitrary: acc)
  case Nil
  then show ?case by simp
next
  case (Cons n ns)
  from Cons.prems
  have "r \<in> set (fold (\<lambda>model. fold (oneToOneField ms model) (m_fields model)) ns
                   (fold (oneToOneField ms n) (m_fields n) acc))"
    by simp
  from Cons.IH [OF this] show ?case
    using fold_fields_oneToOne_sides [of r ms n "m_fields n" acc] by auto
qed

lemma junction_referenced_by_lists:
  assumes dist: "distinct (map m_name ms)" and paired: "relationsPaired ms"
    and j: "j \<in> set ms" and obj: "objectFields j = [f1, f2]"
    and f1: "findModel ms (f_type f1) = Some A" and f2: "findModel ms (f_type f2) = Some B"
    and c1: "reciprocalListField A (m_name j) = Some c1"
    and c2: "reciprocalListField B (m_name j) = Some c2"
    and ne: "m_name A \<noteq> m_name B"
    and m: "m \<in> set ms" and g: "g \<in> set (m_fields m)" "f_kind g = ''object''"
      "f_type g = m_name j"
  shows "f_isList g"
proof -
  have A: "A \<in> set ms" "m_name A = f_type f1" and B: "B \<in> set ms" "m_name B = f_type f2"
    using f1 f2 by (simp_all add: findModel_Some_name)
  have fj: "findModel ms (m_name j) = Some j"
    using dist j by (rule findModel_distinct)
  have types: "f_type f2 \<noteq> f_type f1" "f_type f1 \<noteq> f_type f2"
    using ne A(2) B(2) by simp_all
  have set1: "set (objectFields j) = {f1, f2}" and set2: "set (objectFields j) = {f2, f1}"
    using obj by auto
  have not_self: "f_type f \<noteq> m_name j"
    if f: "f \<in> set (objectFields j)" for f
  proof
    assume self: "f_type f = m_name j"
    from paired j f have "length (oppositeFields ms j f) = 1"
      by (auto dest: relationsPaired_field)
    then obtain h where h: "oppositeFields ms j f = [h]"
      by (cases "oppositeFields ms j f") auto
    then have "h \<in> set (oppositeFields ms j f)" by simp
    with self fj have "h \<in> set (objectFields j)" "f_type h = m_name j" "h \<noteq> f"
      by (auto simp: oppositeFields_def objectFields_def)
    with f self set1 types show False by auto
  qed
  have nA: "m_name A \<noteq> m_name j" and nB: "m_name B \<noteq> m_name j"
    using not_self [of f1] not_self [of f2] set1 A(2) B(2) by auto
  from g have "g \<in> set (objectFields m)" by (simp add: objectFields_def)
  with paired m have "length (oppositeFields ms m g) = 1"
    by (auto dest: relationsPaired_field)
  then obtain rm g' where o: "findModel ms (f_type g) = Some rm"
    "g' \<in> set (m_fields rm)" "f_kind g' = ''object''" "f_type g' = m_name m"
    by (rule oppositeFields_single)
  from o(1) g(3) fj have "rm = j" by simp
  with o(2,3) have "g' \<in> set (objectFields j)" by (simp add: objectFields_def)
  with set1 have "g' = f1 \<or> g' = f2" by auto
  then show ?thesis
  proof
    assume "g' = f1"
    with o(4) A(2) have "m_name m = m_name A" by simp
    with dist A(1) m have "m = A" by (intro same_name_same_model)
    with g show ?thesis
      using junction_side_list [OF dist paired j set1 f1 c1 types(1) nA] by simp
  next
    assume "g' = f2"
    with o(4) B(2) have "m_name m = m_name B" by simp
    with dist B(1) m have "m = B" by (intro same_name_same_model)
    with g show ?thesis
      using junction_side_list [OF dist paired j set2 f2 c2 types(2) nB] by simp
  qed
qed

text \<open>
  C1, as stated (no junction table is the \<open>one\<close> or \<open>many\<close> subject of a one-to-many
  record), does not hold: in the README schema EmployeeProject is a junction table (it has
  its many-to-many record), and it is the \<open>many\<close> subject of the one-to-many record of the
  list field Employee.employeeProjects.
\<close>

theorem junction_in_oneToMany_counterexample:
  "junctionEntry (models readmeSchema) EmployeeProject =
     Some (Inr \<lparr>relationTable =
                  (\<lparr>t_name = ''Employee'', t_field = ''employeeProjects''\<rparr>,
                   \<lparr>t_name = ''Project'', t_field = ''employeeProjects''\<rparr>),
                junctionTable =
                  \<lparr>jt_name = ''EmployeeProject'',
                   jt_keys = [(''EmployeeField'', ''employeeId''),
                              (''ProjectField'', ''projectId'')]\<rparr>\<rparr>) \<and>
   \<lparr>otm_many = \<lparr>t_name = ''EmployeeProject'', t_field = ''employee''\<rparr>,
    otm_one = \<lparr>t_name = ''Employee'', t_field = ''employeeProjects''\<rparr>\<rparr>
     \<in> set (manyToOne (getOneToManyRelations readmeSchema))"
proof
  show "junctionEntry (models readmeSchema) EmployeeProject =
     Some (Inr \<lparr>relationTable =
                  (\<lparr>t_name = ''Employee'', t_field = ''employeeProjects''\<rparr>,
                   \<lparr>t_name = ''Project'', t_field = ''employeeProjects''\<rparr>),
                junctionTable =
                  \<lparr>jt_name = ''EmployeeProject'',
                   jt_keys = [(''EmployeeField'', ''employeeId''),
                              (''ProjectField'', ''projectId'')]\<rparr>\<rparr>)"
    by (simp add: many_to_many_defs readme_defs)
  show "\<lparr>otm_many = \<lparr>t_name = ''EmployeeProject'', t_field = ''employee''\<rparr>,
         otm_one = \<lparr>t_name = ''Employee'', t_field = ''employeeProjects''\<rparr>\<rparr>
        \<in> set (manyToOne (getOneToManyRelations readmeSchema))"
    by (simp add: one_to_many_defs readme_defs)
qed

text \<open>
  C1, amended. For every input graph with distinct model names in which every relation
  field has exactly one opposite relation field, no entity classified as a junction table
  (an entity with exactly two object fields, referencing two distinct existing entities
  that each have a list-typed object field back to it) appears as the \<open>one\<close> subject of
  any record of the one-to-many result, nor as \<open>table_one\<close> or \<open>table_two\<close> of any record
  of the one-to-one result.
\<close>

theorem junction_not_one_side:
  assumes "distinct (map m_name (models d))" and "relationsPaired (models d)"
    and "j \<in> set (models d)" and "objectFields j = [f1, f2]"
    and "findModel (models d) (f_type f1) = Some A"
    and "findModel (models d) (f_type f2) = Some B"
    and "reciprocalListField A (m_name j) = Some c1"
    and "reciprocalListField B (m_name j) = Some c2"
    and "m_name A \<noteq> m_name B"
  shows "(\<forall>r\<in>set (manyToOne (getOneToManyRelations d)). t_name (otm_one r) \<noteq> m_name j) \<and>
         (\<forall>r\<in>set (getOneToOneRelations d).
            t_name (table_one r) \<noteq> m_name j \<and> t_name (table_two r) \<noteq> m_name j)"
proof -
  let ?ms = "models d"
  note lists = junction_referenced_by_lists [OF assms]
  have no_single: False
    if "\<not> noSingleReciprocal ?ms m f" and "m_name m = m_name j" for m f
  proof -
    from that(1) obtain rm rf where "rm \<in> set ?ms" "rf \<in> set (m_fields rm)"
      "f_kind rf = ''object''" "\<not> f_isList rf" "f_type rf = m_name m"
      by (rule noSingleReciprocal_field)
    with that(2) lists [of rm rf] show False by simp
  qed
  have otm: "t_name (otm_one r) \<noteq> m_name j"
    if r: "r \<in> set (manyToOne (getOneToManyRelations d))" for r
  proof
    assume n: "t_name (otm_one r) = m_name j"
    from r obtain m f where "otm_one r = \<lparr>t_name = m_name m, t_field = f_name f\<rparr>"
      "\<not> noSingleReciprocal ?ms m f"
      using fold_models_oneToMany_origin [of r ?ms ?ms "[]"]
      by (auto simp: getOneToManyRelations_def)
    with n no_single [of m f] show False by simp
  qed
  have oto: "t_name (table_one r) \<noteq> m_name j \<and> t_name (table_two r) \<noteq> m_name j"
    if r: "r \<in> set (getOneToOneRelations d)" for r
  proof -
    from r obtain m f where mf: "m \<in> set ?ms" "f \<in> set (m_fields m)"
      "t_name (table_one r) = m_name m" "t_name (table_two r) = f_type f"
      "f_kind f = ''object''" "\<not> f_isList f" "\<not> noSingleReciprocal ?ms m f"
      using fold_models_oneToOne_sides [of r ?ms ?ms "[]"]
      by (auto simp: getOneToOneRelations_def)
    have "t_name (table_one r) \<noteq> m_name j"
      using mf(3,7) no_single [of m f] by auto
    moreover have "t_name (table_two r) \<noteq> m_name j"
      using mf(1,2,4,5,6) lists [of m f] by auto
    ultimately show ?thesis by simp
  qed
  from otm oto show ?thesis by blast
qed

theorem junction_not_one_side_witness:
  "distinct (map m_name (models readmeSchema)) \<and>
   relationsPaired (models readmeSchema) \<and>
   EmployeeProject \<in> set (models readmeSchema) \<and>
   objectFields EmployeeProject =
     [objectField ''employee'' ''Employee'' False (Some ''EmployeeToEmployeeProject''),
      objectField ''project'' ''Project'' False (Some ''EmployeeProjectToProject'')] \<and>
   findModel (models readmeSchema) ''Employee'' = Some Employee \<and>
   findModel (models readmeSchema) ''Project'' = Some Project \<and>
   reciprocalListField Employee ''EmployeeProject'' =
     Some (objectField ''employeeProjects'' ''EmployeeProject'' True
             (Some ''EmployeeToEmployeeProject'')) \<and>
   reciprocalListField Project ''EmployeeProject'' =
     Some (objectField ''employeeProjects'' ''EmployeeProject'' True
             (Some ''EmployeeProjectToProject'')) \<and>
   m_name Employee \<noteq> m_name Project \<and>
   map (t_name \<circ> otm_one) (manyToOne (getOneToManyRelations readmeSchema)) =
     [''Employee'', ''Department'', ''Project''] \<and>
   map (t_name \<circ> table_one) (getOneToOneRelations readmeSchema) = [''Employee''] \<and>
   map (t_name \<circ> table_two) (getOneToOneRelations readmeSchema) = [''Profile''] \<and>
   ''EmployeeProject''
     \<notin> set (map (t_name \<circ> otm_one) (manyToOne (getOneToManyRelations readmeSchema))) \<and>
   ''EmployeeProject'' \<notin> set (map (t_name \<circ> table_one) (getOneToOneRelations readmeSchema)) \<and>
   ''EmployeeProject'' \<notin> set (map (t_name \<circ> table_two) (getOneToOneRelations readmeSchema))"
proof -
  let ?ms = "models readmeSchema"
  let ?f1 = "objectField ''employee'' ''Employee'' False (Some ''EmployeeToEmployeeProject'')"
  let ?f2 = "objectField ''project'' ''Project'' False (Some ''EmployeeProjectToProject'')"
  let ?c1 = "objectField ''employeeProjects'' ''EmployeeProject'' True
               (Some ''EmployeeToEmployeeProject'')"
  let ?c2 = "objectField ''employeeProjects'' ''EmployeeProject'' True
               (Some ''EmployeeProjectToProject'')"
  have h1: "distinct (map m_name ?ms)"
    by (simp add: readme_defs)
  have h2: "relationsPaired ?ms"
    by (simp add: relationsPaired_def oppositeFields_def objectFields_def findModel_def
        readme_defs)
  have h3: "EmployeeProject \<in> set ?ms"
    by (simp add: readmeSchema_def)
  have h4: "objectFields EmployeeProject = [?f1, ?f2]"
    by (simp add: objectFields_def readme_defs)
  have h5: "findModel ?ms (f_type ?f1) = Some Employee"
    by (simp add: findModel_def readme_defs)
  have h6: "findModel ?ms (f_type ?f2) = Some Project"
    by (simp add: findModel_def readme_defs)
  have h7: "reciprocalListField Employee (m_name EmployeeProject) = Some ?c1"
    by (simp add: reciprocalListField_def readme_defs)
  have h8: "reciprocalListField Project (m_name EmployeeProject) = Some ?c2"
    by (simp add: reciprocalListField_def readme_defs)
  have h9: "m_name Employee \<noteq> m_name Project"
    by (simp add: readme_defs)
  have n: "m_name EmployeeProject = ''EmployeeProject''" "f_type ?f1 = ''Employee''"
    "f_type ?f2 = ''Project''"
    by (simp_all add: EmployeeProject_def objectField_def)
  have o1: "map (t_name \<circ> otm_one) (manyToOne (getOneToManyRelations readmeSchema)) =
     [''Employee'', ''Department'', ''Project'']"
    by (simp add: one_to_many_defs readme_defs)
  have o2: "map (t_name \<circ> table_one) (getOneToOneRelations readmeSchema) = [''Employee'']"
    and o3: "map (t_name \<circ> table_two) (getOneToOneRelations readmeSchema) = [''Profile'']"
    by (simp_all add: one_to_one_defs readme_defs)
  from junction_not_one_side [OF h1 h2 h3 h4 h5 h6 h7 h8 h9]
  have c: "''EmployeeProject''
       \<notin> set (map (t_name \<circ> otm_one) (manyToOne (getOneToManyRelations readmeSchema)))"
    "''EmployeeProject'' \<notin> set (map (t_name \<circ> table_one) (getOneToOneRelations readmeSchema))"
    "''EmployeeProject'' \<notin> set (map (t_name \<circ> table_two) (getOneToOneRelations readmeSchema))"
    unfolding n by auto
  from h1 h2 h3 h4 h5 h6 h7 h8 h9 o1 o2 o3 c show ?thesis
    unfolding n by blast
qed

text \<open>
  The pairing is needed: in the unpaired graph EmployeeProject is still classified as a
  junction table, and the singular field typed at it puts it on the second side of a
  one-to-one record.
\<close>

lemma unpaired_junction_in_oneToOne:
  "\<not> relationsPaired (models unpairedSchema) \<and>
   getManyToManyRelations unpairedSchema =
     Inr [\<lparr>relationTable =
            (\<lparr>t_name = ''Employee'', t_field = ''employeeProjects''\<rparr>,
             \<lparr>t_name = ''Project'', t_field = ''employeeProjects''\<rparr>),
          junctionTable =
            \<lparr>jt_name = ''EmployeeProject'',
             jt_keys = [(''EmployeeField'', ''employeeProjectKey''),
                        (''ProjectField'', ''employeeProjectKey'')]\<rparr>\<rparr>] \<and>
   getOneToOneRelations unpairedSchema =
     [\<lparr>table_one = \<lparr>t_name = ''Employee'', t_field = ''lead''\<rparr>,
       table_two = \<lparr>t_name = ''EmployeeProject'', t_field = ''employee''\<rparr>\<rparr>]"
proof (intro conjI)
  show "\<not> relationsPaired (models unpairedSchema)"
    by (simp add: relationsPaired_def oppositeFields_def objectFields_def findModel_def
        field_defs EmployeeWithLead_def ProjectLinked_def EmployeeProjectKeyed_def
        unpairedSchema_def)
  show "getManyToManyRelations unpairedSchema =
     Inr [\<lparr>relationTable =
            (\<lparr>t_name = ''Employee'', t_field = ''employeeProjects''\<rparr>,
             \<lparr>t_name = ''Project'', t_field = ''employeeProjects''\<rparr>),
          junctionTable =
            \<lparr>jt_name = ''EmployeeProject'',
             jt_keys = [(''EmployeeField'', ''employeeProjectKey''),
                        (''ProjectField'', ''employeeProjectKey'')]\<rparr>\<rparr>]"
    by (simp add: many_to_many_defs field_defs EmployeeWithLead_def ProjectLinked_def
        EmployeeProjectKeyed_def unpairedSchema_def)
  show "getOneToOneRelations unpairedSchema =
     [\<lparr>table_one = \<lparr>t_name = ''Employee'', t_field = ''lead''\<rparr>,
       table_two = \<lparr>t_name = ''EmployeeProject'', t_field = ''employee''\<rparr>\<rparr>]"
    by (simp add: one_to_one_defs field_defs EmployeeWithLead_def ProjectLinked_def
        EmployeeProjectKeyed_def unpairedSchema_def)
qed

end
